theory Spec2Isabelle
  imports Main "HOL-Library.AList" "HOL-Library.Sublist"
begin

section \<open>bower-json: the manifest reader, validator and locator\<close>

text \<open>
  A shallow embedding of \<^verbatim>\<open>lib/json.js\<close> and of the second copy of that module that the
  repository holds (\<^verbatim>\<open>unnamed/part_000\<close>). The two files share \<^verbatim>\<open>read\<close>, \<^verbatim>\<open>parse\<close>,
  \<^verbatim>\<open>normalize\<close> and \<^verbatim>\<open>find\<close>; they differ in the validator. \<^verbatim>\<open>lib/json.js\<close> validates
  through \<^verbatim>\<open>findErrors\<close> and \<^verbatim>\<open>throwOnError\<close>, \<^verbatim>\<open>part_000\<close> throws from inside
  \<^verbatim>\<open>validate\<close>. Functions of \<^verbatim>\<open>lib/json.js\<close> keep their names; those of \<^verbatim>\<open>part_000\<close>
  that differ carry the suffix \<open>_part000\<close>.
\<close>

subsection \<open>JavaScript values\<close>

text \<open>
  The values \<^verbatim>\<open>JSON.parse\<close> can produce. An object is the list of its own properties in
  the order \<^verbatim>\<open>Object.keys\<close> enumerates them (keys distinct). \<^verbatim>\<open>undefined\<close> is not a JSON
  value: a value that may be undefined is a \<open>json option\<close>, with \<open>None\<close> for undefined.
  Numbers are integers; strings are lists of 8-bit characters.
\<close>

datatype json =
    JNull
  | JBool bool
  | JNum int
  | JStr string
  | JArr "json list"
  | JObj "(string \<times> json) list"

text \<open>ToBoolean: what \<^verbatim>\<open>if (v)\<close>, \<^verbatim>\<open>!v\<close> and \<^verbatim>\<open>a && b\<close> test.\<close>

fun truthy :: "json option \<Rightarrow> bool" where
  "truthy None = False"
| "truthy (Some JNull) = False"
| "truthy (Some (JBool b)) = b"
| "truthy (Some (JNum n)) = (n \<noteq> 0)"
| "truthy (Some (JStr s)) = (s \<noteq> [])"
| "truthy (Some (JArr xs)) = True"
| "truthy (Some (JObj kvs)) = True"

text \<open>
  \<^verbatim>\<open>json.k\<close> for the five fields the module reads (\<^verbatim>\<open>name\<close>, \<^verbatim>\<open>description\<close>, \<^verbatim>\<open>main\<close>,
  \<^verbatim>\<open>dependencies\<close>, \<^verbatim>\<open>devDependencies\<close>): an object gives its own property, every other
  value but \<^verbatim>\<open>null\<close> gives undefined. Reading a property of \<^verbatim>\<open>null\<close> is a TypeError
  (\<open>nullRead\<close> below), which the callers raise before they use \<open>field\<close>.
\<close>

fun field :: "json \<Rightarrow> string \<Rightarrow> json option" where
  "field (JObj kvs) k = map_of kvs k"
| "field _ k = None"

text \<open>
  \<^verbatim>\<open>v.length\<close> of a truthy value: the length of a string or an array, the own property of
  an object, undefined for a number and a boolean.
\<close>

fun prop_length :: "json option \<Rightarrow> json option" where
  "prop_length (Some (JStr s)) = Some (JNum (int (length s)))"
| "prop_length (Some (JArr xs)) = Some (JNum (int (length xs)))"
| "prop_length (Some (JObj kvs)) = map_of kvs ''length''"
| "prop_length _ = None"

fun is_string :: "json \<Rightarrow> bool" where
  "is_string (JStr s) = True"
| "is_string _ = False"

subsection \<open>Errors\<close>

text \<open>
  A JavaScript error object: its message, its \<^verbatim>\<open>code\<close> and its \<^verbatim>\<open>file\<close> property (\<open>file_attr\<close>), the
  last two absent (\<open>None\<close>) until something sets them. A thrown error is the \<open>Inl\<close> of a result.
\<close>

record error =
  message :: string
  code :: "string option"
  file_attr :: "string option"

text \<open>
  Modelled from the spec: \<^verbatim>\<open>./util/createError\<close> is not among the source files. The spec's
  ValidationError is "a tagged failure carrying a human-readable message, a machine-readable
  kind, and optionally the originating file path"; \<^verbatim>\<open>createError(msg, code)\<close> builds one
  with no file.
\<close>

definition createError :: "string \<Rightarrow> string \<Rightarrow> error" where
  "createError msg c = \<lparr>message = msg, code = Some c, file_attr = None\<rparr>"

text \<open>An error the engine itself throws (a TypeError): it has no \<^verbatim>\<open>code\<close>.\<close>

definition typeError :: "string \<Rightarrow> error" where
  "typeError msg = \<lparr>message = msg, code = None, file_attr = None\<rparr>"

text \<open>
  Reading the property \<open>k\<close> of \<^verbatim>\<open>null\<close>: the TypeError the engine throws, with
  the message of current V8.
\<close>

definition nullRead :: "string \<Rightarrow> error" where
  "nullRead k = typeError (''Cannot read properties of null (reading '' @ [CHR 0x27] @ k @ [CHR 0x27] @ '')'')"

text \<open>Sequencing of steps that may throw.\<close>

definition and_then :: "error + 'a \<Rightarrow> ('a \<Rightarrow> error + 'b) \<Rightarrow> error + 'b" where
  "and_then m f = (case m of Inl e \<Rightarrow> Inl e | Inr x \<Rightarrow> f x)"

text \<open>\<^verbatim>\<open>xs.forEach(f)\<close> with a body that updates a state and may throw.\<close>

fun forEach :: "('a \<Rightarrow> 's \<Rightarrow> error + 's) \<Rightarrow> 'a list \<Rightarrow> 's \<Rightarrow> error + 's" where
  "forEach f [] st = Inr st"
| "forEach f (x # xs) st = and_then (f x st) (forEach f xs)"

subsection \<open>Collaborators outside the source files\<close>

text \<open>
  What the module calls and the source files do not define, taken as parameters:
  \<^verbatim>\<open>./util/isAsset\<close>, \<^verbatim>\<open>path.extname\<close>, \<^verbatim>\<open>JSON.stringify\<close>, the copy
  \<^verbatim>\<open>deepExtend({}, json)\<close>, and the engine's coercions where the module hands a value that
  is not a string to a regular expression (ToString) or compares a value that is not a
  number with a number. Every theorem holds for all of them.
\<close>

record externals =
  isAsset :: "json \<Rightarrow> error + bool"
  extname :: "json \<Rightarrow> error + string"
  stringify :: "json \<Rightarrow> string"
  clone :: "json \<Rightarrow> json"
  toString :: "json \<Rightarrow> error + string"
  greaterEq :: "json \<Rightarrow> int \<Rightarrow> error + bool"
  greater :: "json \<Rightarrow> int \<Rightarrow> error + bool"

text \<open>
  \<^verbatim>\<open>v >= k\<close> and \<^verbatim>\<open>v > k\<close> for a number \<open>k\<close>: undefined is NaN and compares false,
  \<^verbatim>\<open>null\<close> is 0, a boolean is 0 or 1; a string, an array or an object goes through the
  engine's ToPrimitive and ToNumber.
\<close>

fun js_ge :: "externals \<Rightarrow> json option \<Rightarrow> int \<Rightarrow> error + bool" where
  "js_ge ext None k = Inr False"
| "js_ge ext (Some (JNum n)) k = Inr (k \<le> n)"
| "js_ge ext (Some JNull) k = Inr (k \<le> 0)"
| "js_ge ext (Some (JBool b)) k = Inr (k \<le> (if b then 1 else 0))"
| "js_ge ext (Some v) k = greaterEq ext v k"

fun js_gt :: "externals \<Rightarrow> json option \<Rightarrow> int \<Rightarrow> error + bool" where
  "js_gt ext None k = Inr False"
| "js_gt ext (Some (JNum n)) k = Inr (k < n)"
| "js_gt ext (Some JNull) k = Inr (k < 0)"
| "js_gt ext (Some (JBool b)) k = Inr (k < (if b then 1 else 0))"
| "js_gt ext (Some v) k = greater ext v k"

subsection \<open>Regular expressions\<close>

text \<open>
  The patterns of the module use character classes, concatenation, \<^verbatim>\<open>?\<close>, \<^verbatim>\<open>*\<close>, \<^verbatim>\<open>+\<close>
  and the anchors \<^verbatim>\<open>^\<close> and \<^verbatim>\<open>$\<close> at the ends of the pattern, with no flags. Such a
  pattern denotes a regular language, and \<^verbatim>\<open>re.test(s)\<close> is true when some substring of
  \<open>s\<close> (a prefix, a suffix or all of \<open>s\<close>, as the anchors say) is in it. The matcher takes
  Brzozowski derivatives.
\<close>

datatype cls = Rng char char | Ch char

fun in_cls :: "char \<Rightarrow> cls \<Rightarrow> bool" where
  "in_cls c (Rng lo hi) = ((of_char lo :: nat) \<le> of_char c \<and> (of_char c :: nat) \<le> of_char hi)"
| "in_cls c (Ch d) = (c = d)"

datatype rx =
    RNone
  | REps
  | RClass "cls list"
  | RNotClass "cls list"
  | RSeq rx rx
  | RAlt rx rx
  | RStar rx
  | ROpt rx

fun nullable :: "rx \<Rightarrow> bool" where
  "nullable RNone = False"
| "nullable REps = True"
| "nullable (RClass cs) = False"
| "nullable (RNotClass cs) = False"
| "nullable (RSeq r s) = (nullable r \<and> nullable s)"
| "nullable (RAlt r s) = (nullable r \<or> nullable s)"
| "nullable (RStar r) = True"
| "nullable (ROpt r) = True"

fun deriv :: "char \<Rightarrow> rx \<Rightarrow> rx" where
  "deriv c RNone = RNone"
| "deriv c REps = RNone"
| "deriv c (RClass cs) = (if list_ex (in_cls c) cs then REps else RNone)"
| "deriv c (RNotClass cs) = (if list_ex (in_cls c) cs then RNone else REps)"
| "deriv c (RSeq r s) =
     (if nullable r then RAlt (RSeq (deriv c r) s) (deriv c s) else RSeq (deriv c r) s)"
| "deriv c (RAlt r s) = RAlt (deriv c r) (deriv c s)"
| "deriv c (RStar r) = RSeq (deriv c r) (RStar r)"
| "deriv c (ROpt r) = deriv c r"

fun matches :: "rx \<Rightarrow> string \<Rightarrow> bool" where
  "matches r [] = nullable r"
| "matches r (c # cs) = matches (deriv c r) cs"

text \<open>A pattern: is it anchored at the start, its body, is it anchored at the end.\<close>

datatype regexp = RegExp bool rx bool

definition any_char :: rx where
  "any_char = RNotClass []"

fun js_test :: "regexp \<Rightarrow> string \<Rightarrow> bool" where
  "js_test (RegExp a r e) s =
     matches (RSeq (if a then REps else RStar any_char)
                (RSeq r (if e then REps else RStar any_char))) s"

text \<open>\<^verbatim>\<open>re.test(v)\<close> on any value: a value that is not a string is converted first.\<close>

fun to_str :: "externals \<Rightarrow> json \<Rightarrow> error + string" where
  "to_str ext (JStr s) = Inr s"
| "to_str ext v = toString ext v"

definition test :: "externals \<Rightarrow> regexp \<Rightarrow> json \<Rightarrow> error + bool" where
  "test ext re v = and_then (to_str ext v) (\<lambda>s. Inr (js_test re s))"

definition letter :: cls where
  "letter = Rng CHR ''A'' CHR ''z''"

definition digit :: cls where
  "digit = Rng CHR ''0'' CHR ''9''"

text \<open>\<^verbatim>\<open>/[^A-z0-9\.\-]*/\<close>\<close>

definition re_invalid :: regexp where
  "re_invalid = RegExp False (RStar (RNotClass [letter, digit, Ch CHR ''.'', Ch CHR ''-''])) False"

text \<open>\<^verbatim>\<open>/^[A-z]?([A-z](([A-z0-9]\-?)*([A-z0-9]\.?)*)*[A-z0-9])?$/\<close>\<close>

definition re_structure :: regexp where
  "re_structure =
     RegExp True
       (RSeq (ROpt (RClass [letter]))
          (ROpt (RSeq (RClass [letter])
             (RSeq (RStar (RSeq (RStar (RSeq (RClass [letter, digit]) (ROpt (RClass [Ch CHR ''-'']))))
                                (RStar (RSeq (RClass [letter, digit]) (ROpt (RClass [Ch CHR ''.'']))))))
                   (RClass [letter, digit])))))
       True"

text \<open>\<^verbatim>\<open>/[A-Z]/\<close>, \<^verbatim>\<open>/^[a-z]/\<close>, \<^verbatim>\<open>/[a-z]$/\<close>, \<^verbatim>\<open>/[a-z]/\<close>\<close>

definition upper :: cls where
  "upper = Rng CHR ''A'' CHR ''Z''"

definition lower :: cls where
  "lower = Rng CHR ''a'' CHR ''z''"

definition re_upper :: regexp where
  "re_upper = RegExp False (RClass [upper]) False"

definition re_lower_start :: regexp where
  "re_lower_start = RegExp True (RClass [lower]) False"

definition re_lower_end :: regexp where
  "re_lower_end = RegExp False (RClass [lower]) True"

definition re_lower :: regexp where
  "re_lower = RegExp False (RClass [lower]) False"

text \<open>\<^verbatim>\<open>/\.\./\<close>, \<^verbatim>\<open>/[*]/\<close>, \<^verbatim>\<open>/[.]min[.][^/]+$/\<close>\<close>

definition re_traversal :: regexp where
  "re_traversal = RegExp False (RSeq (RClass [Ch CHR ''.'']) (RClass [Ch CHR ''.''])) False"

definition re_glob :: regexp where
  "re_glob = RegExp False (RClass [Ch CHR ''*'']) False"

definition re_minified :: regexp where
  "re_minified =
     RegExp False
       (RSeq (RClass [Ch CHR ''.''])
          (RSeq (RClass [Ch CHR ''m''])
             (RSeq (RClass [Ch CHR ''i''])
                (RSeq (RClass [Ch CHR ''n''])
                   (RSeq (RClass [Ch CHR ''.''])
                      (RSeq (RNotClass [Ch CHR ''/'']) (RStar (RNotClass [Ch CHR ''/'']))))))))
       True"

subsection \<open>Options\<close>

text \<open>
  The options object, as what the caller gave for each option: \<open>None\<close> when the option is
  not given, \<open>Some b\<close> when it is given with a value that is truthy (\<open>b\<close>) or falsy. A
  call without options is \<open>no_options\<close>. \<^verbatim>\<open>deepExtend(defaults, options || {})\<close> lets a
  given option override the default. \<^verbatim>\<open>parse\<close> hands its own options object on to
  \<^verbatim>\<open>validate\<close>, so one record carries the five options.
\<close>

record options =
  opt_normalize :: "bool option"
  opt_validate :: "bool option"
  opt_clone :: "bool option"
  opt_enforceNameExists :: "bool option"
  opt_strictNames :: "bool option"

definition no_options :: options where
  "no_options =
     \<lparr>opt_normalize = None, opt_validate = None, opt_clone = None,
      opt_enforceNameExists = None, opt_strictNames = None\<rparr>"

definition deepExtend :: "bool \<Rightarrow> bool option \<Rightarrow> bool" where
  "deepExtend dflt given = (case given of None \<Rightarrow> dflt | Some b \<Rightarrow> b)"

subsection \<open>The package name validator (\<^verbatim>\<open>lib/json.js\<close>)\<close>

text \<open>
  The four statements of the \<^verbatim>\<open>if(strictNames)\<close> block, in the order of the source: the
  condition under which each throws, and the message it throws.
  \<^verbatim>\<open>
  if (/[A-Z]/.test(name))   throw createError('The name contains upper case letters', ...);
  if (!/^[a-z]/.test(name)) throw createError('The name has to start with a lower case character from a to z', ...);
  if (!/[a-z]$/.test(name)) throw createError('The name has to end with a lower case character from a to z', ...);
  if (!/[a-z]/.test(name))  throw createError('The name has to end with a lower case character from a to z', ...);
  \<close>
\<close>

type_synonym check = "(string \<Rightarrow> bool) \<times> string"

definition strictChecks :: "check list" where
  "strictChecks =
     [(\<lambda>name. js_test re_upper name,
         ''The name contains upper case letters''),
      (\<lambda>name. \<not> js_test re_lower_start name,
         ''The name has to start with a lower case character from a to z''),
      (\<lambda>name. \<not> js_test re_lower_end name,
         ''The name has to end with a lower case character from a to z''),
      (\<lambda>name. \<not> js_test re_lower name,
         ''The name has to end with a lower case character from a to z'')]"

text \<open>Running a sequence of such statements: the first whose condition holds throws.\<close>

fun runChecks :: "check list \<Rightarrow> string \<Rightarrow> error + unit" where
  "runChecks [] name = Inr ()"
| "runChecks ((throws, msg) # checks) name =
     (if throws name then Inl (createError msg ''EINVALID'') else runChecks checks name)"

text \<open>
  \<^verbatim>\<open>findPackageNameErrors(name, strictNames)\<close>, with the statements of the strict block as
  a parameter. Every failure is thrown; the array \<^verbatim>\<open>errors\<close> it returns is always empty.
\<close>

definition findPackageNameErrors_with ::
  "check list \<Rightarrow> json option \<Rightarrow> bool \<Rightarrow> error + error list" where
  "findPackageNameErrors_with checks name strictNames =
     (if \<not> truthy name then Inl (createError ''No name property set'' ''EINVALID'')
      else
        (case name of
           Some (JStr s) \<Rightarrow>
             if 50 \<le> length s then
               Inl (createError ''The name is too long. 50 characters should be more than enough''
                      ''EINVALID'')
             else if \<not> js_test re_invalid s then
               Inl (createError ''The name contains an invalid character'' ''EINVALID'')
             else if \<not> js_test re_structure s then
               Inl (createError (''The name is malformed: '' @ s) ''EINVALID'')
             else if strictNames then and_then (runChecks checks s) (\<lambda>_. Inr [])
             else Inr []
         | _ \<Rightarrow> Inl (createError ''Package name is not a string'' ''EINVALID'')))"

definition findPackageNameErrors :: "json option \<Rightarrow> bool \<Rightarrow> error + error list" where
  "findPackageNameErrors = findPackageNameErrors_with strictChecks"

text \<open>\<^verbatim>\<open>throwOnError(errors)\<close>: throws \<^verbatim>\<open>errors[0]\<close> when the array is not empty.\<close>

fun throwOnError :: "error list \<Rightarrow> error + unit" where
  "throwOnError [] = Inr ()"
| "throwOnError (e # errors) = Inl e"

text \<open>\<^verbatim>\<open>validatePackageName(name, strictNames)\<close> returns \<^verbatim>\<open>true\<close>.\<close>

definition validatePackageName :: "json option \<Rightarrow> bool \<Rightarrow> error + json" where
  "validatePackageName name strictNames =
     and_then (findPackageNameErrors name strictNames) (\<lambda>errors.
     and_then (throwOnError errors) (\<lambda>_. Inr (JBool True)))"

subsection \<open>The package name validator (\<^verbatim>\<open>part_000\<close>)\<close>

text \<open>
  \<^verbatim>\<open>validatePackageName(name, strictNames)\<close> of \<^verbatim>\<open>part_000\<close> does not ask whether the
  name is a string: it compares \<^verbatim>\<open>name.length\<close> with 50 and hands \<^verbatim>\<open>name\<close> to the
  regular expressions, which convert it. Every conversion of the same value gives the same
  string, so the model converts once, where the first test does. It has no \<^verbatim>\<open>return\<close>.
\<close>

definition validatePackageName_part000_with ::
  "check list \<Rightarrow> externals \<Rightarrow> json option \<Rightarrow> bool \<Rightarrow> error + unit" where
  "validatePackageName_part000_with checks ext name strictNames =
     (case name of
        None \<Rightarrow> Inl (createError ''No name property set'' ''EINVALID'')
      | Some v \<Rightarrow>
          if \<not> truthy (Some v) then Inl (createError ''No name property set'' ''EINVALID'')
          else
            and_then (js_ge ext (prop_length (Some v)) 50) (\<lambda>tooLong.
            if tooLong then
              Inl (createError ''The name is too long. 50 characters should be more than enough''
                     ''EINVALID'')
            else
              and_then (to_str ext v) (\<lambda>s.
              if \<not> js_test re_invalid s then
                Inl (createError ''The name contains an invalid character'' ''EINVALID'')
              else if \<not> js_test re_structure s then
                Inl (createError (''The name is malformed: '' @ s) ''EINVALID'')
              else if strictNames then runChecks checks s
              else Inr ())))"

definition validatePackageName_part000 ::
  "externals \<Rightarrow> json option \<Rightarrow> bool \<Rightarrow> error + unit" where
  "validatePackageName_part000 = validatePackageName_part000_with strictChecks"

subsection \<open>The dependency validator\<close>

text \<open>
  \<^verbatim>\<open>dependencies instanceof Object\<close> holds of an object and of an array. The loop
  \<^verbatim>\<open>Object.keys(dependencies).forEach(function(name) { var resource = dependencies[name]; ... })\<close>
  runs over the own properties: those of an array are its indices, written in decimal.
\<close>

fun instanceof_Object :: "json option \<Rightarrow> bool" where
  "instanceof_Object (Some (JObj kvs)) = True"
| "instanceof_Object (Some (JArr xs)) = True"
| "instanceof_Object _ = False"

fun decimal :: "nat \<Rightarrow> string" where
  "decimal n =
     (if n < 10 then [char_of (48 + n)] else decimal (n div 10) @ [char_of (48 + n mod 10)])"

declare decimal.simps [simp del]

fun own_entries :: "json option \<Rightarrow> (string \<times> json) list" where
  "own_entries (Some (JObj kvs)) = kvs"
| "own_entries (Some (JArr xs)) = zip (map decimal [0..<length xs]) xs"
| "own_entries _ = []"

definition traversing :: error where
  "traversing = createError ''Directory traversing in dependency paths is not allowed'' ''EINVALID''"

text \<open>
  The body of the loop in \<^verbatim>\<open>findDependencyErrors\<close> (\<^verbatim>\<open>lib/json.js\<close>):
  \<^verbatim>\<open>
  errors = errors.concat(findPackageNameErrors(name, strictNames));
  if(/\.\./.test(resource)) { errors.push(createError('Directory traversing ...', 'EINVALID')); }
  \<close>
\<close>

definition dependencyErrors ::
  "externals \<Rightarrow> bool \<Rightarrow> string \<times> json \<Rightarrow> error list \<Rightarrow> error + error list" where
  "dependencyErrors ext strictNames entry errors =
     (case entry of (name, resource) \<Rightarrow>
        and_then (findPackageNameErrors (Some (JStr name)) strictNames) (\<lambda>found.
        and_then (test ext re_traversal resource) (\<lambda>dotdot.
        Inr (errors @ found @ (if dotdot then [traversing] else [])))))"

definition findDependencyErrors ::
  "externals \<Rightarrow> json option \<Rightarrow> bool \<Rightarrow> error + error list" where
  "findDependencyErrors ext dependencies strictNames =
     (if instanceof_Object dependencies then
        forEach (dependencyErrors ext strictNames) (own_entries dependencies) []
      else Inr [])"

definition validateDependencies :: "externals \<Rightarrow> json option \<Rightarrow> bool \<Rightarrow> error + unit" where
  "validateDependencies ext dependencies strictNames =
     and_then (findDependencyErrors ext dependencies strictNames) throwOnError"

text \<open>
  The body of the loop in \<^verbatim>\<open>validateDependencies\<close> (\<^verbatim>\<open>part_000\<close>):
  \<^verbatim>\<open>
  validatePackageName(name, strictNames);
  if(/\.\./.test(resource)) { throw createError('Directory traversing ...', 'EINVALID'); }
  \<close>
\<close>

definition validateDependency_part000 ::
  "externals \<Rightarrow> bool \<Rightarrow> string \<times> json \<Rightarrow> unit \<Rightarrow> error + unit" where
  "validateDependency_part000 ext strictNames entry u =
     (case entry of (name, resource) \<Rightarrow>
        and_then (validatePackageName_part000 ext (Some (JStr name)) strictNames) (\<lambda>_.
        and_then (test ext re_traversal resource) (\<lambda>dotdot.
        if dotdot then Inl traversing else Inr ())))"

definition validateDependencies_part000 ::
  "externals \<Rightarrow> json option \<Rightarrow> bool \<Rightarrow> error + unit" where
  "validateDependencies_part000 ext dependencies strictNames =
     (if instanceof_Object dependencies then
        forEach (validateDependency_part000 ext strictNames) (own_entries dependencies) ()
      else Inr ())"

subsection \<open>The \<^verbatim>\<open>main\<close> field\<close>

text \<open>
  \<^verbatim>\<open>ext2files\<close>: the files seen so far under each extension, in the order the extensions
  were first seen. (\<^verbatim>\<open>path.extname\<close> gives the empty string or a string that starts with
  a dot, which is never a property \<^verbatim>\<open>ext2files\<close> inherits.)
\<close>

type_synonym ext2files = "(string \<times> json list) list"

definition push_file :: "string \<Rightarrow> json \<Rightarrow> ext2files \<Rightarrow> ext2files" where
  "push_file e filename groups =
     (case map_of groups e of
        None \<Rightarrow> groups @ [(e, [filename])]
      | Some files \<Rightarrow> AList.update e (files @ [filename]) groups)"

definition notArrayOrString :: error where
  \<open>notArrayOrString =
     createError ''The "main" field has to be either an Array or a String'' ''EINVALID''\<close>

definition onlyStrings :: error where
  \<open>onlyStrings = createError ''The "main" Array has to contain only Strings'' ''EINVALID''\<close>

definition noGlobs :: error where
  \<open>noGlobs =
     createError ''The "main" field cannot contain globs (example: "*.js")'' ''EINVALID''\<close>

definition noMinified :: error where
  \<open>noMinified = createError ''The "main" field cannot contain minified files'' ''EINVALID''\<close>

definition noAssets :: error where
  \<open>noAssets =
     createError ''The "main" field cannot contain font, image, audio, or video files''
       ''EINVALID''\<close>

definition multipleFiles :: "externals \<Rightarrow> string \<Rightarrow> json list \<Rightarrow> error" where
  \<open>multipleFiles ext e files =
     createError
       (''The "main" field has to contain only 1 file per filetype; found multiple '' @ e @
        '' files: '' @ stringify ext (JArr files))
       ''EINVALID''\<close>

text \<open>
  The body of \<^verbatim>\<open>main.forEach\<close> in \<^verbatim>\<open>findErrors\<close> (\<^verbatim>\<open>lib/json.js\<close>): every violation is
  pushed and the body goes on.
\<close>

definition mainErrors ::
  "externals \<Rightarrow> json \<Rightarrow> error list \<times> ext2files \<Rightarrow> error + error list \<times> ext2files" where
  "mainErrors ext filename st =
     (case st of (errors, groups) \<Rightarrow>
        let errors1 = (if is_string filename then errors else errors @ [onlyStrings]) in
        and_then (test ext re_glob filename) (\<lambda>glob.
        let errors2 = (if glob then errors1 @ [noGlobs] else errors1) in
        and_then (test ext re_minified filename) (\<lambda>minified.
        let errors3 = (if minified then errors2 @ [noMinified] else errors2) in
        and_then (isAsset ext filename) (\<lambda>asset.
        let errors4 = (if asset then errors3 @ [noAssets] else errors3) in
        and_then (extname ext filename) (\<lambda>e.
        Inr (errors4, if 2 \<le> length e then push_file e filename groups else groups))))))"

text \<open>
  The block \<^verbatim>\<open>if (json.main !== undefined) { ... }\<close> of \<^verbatim>\<open>findErrors\<close>. When \<^verbatim>\<open>main\<close> is
  neither a string nor an array the error is pushed and \<^verbatim>\<open>main.forEach\<close> is called all the
  same, which is a TypeError: \<^verbatim>\<open>null\<close> has no properties to read, and no other JSON value
  has a function \<^verbatim>\<open>forEach\<close>.
\<close>

definition findMainErrors ::
  "externals \<Rightarrow> json option \<Rightarrow> error list \<Rightarrow> error + error list" where
  "findMainErrors ext main errors =
     (case main of
        None \<Rightarrow> Inr errors
      | Some m \<Rightarrow>
          (case (if is_string m then JArr [m] else m) of
             JArr filenames \<Rightarrow>
               and_then (forEach (mainErrors ext) filenames (errors, [])) (\<lambda>(errors1, groups).
               Inr (errors1 @
                    map (\<lambda>(e, files). multipleFiles ext e files)
                      (filter (\<lambda>(e, files). 1 < length files) groups)))
           | JNull \<Rightarrow> Inl (nullRead ''forEach'')
           | _ \<Rightarrow> Inl (typeError ''main.forEach is not a function'')))"

text \<open>The same two loops in \<^verbatim>\<open>validate\<close> of \<^verbatim>\<open>part_000\<close>: the first violation is thrown.\<close>

definition validateMainEntry_part000 ::
  "externals \<Rightarrow> json \<Rightarrow> ext2files \<Rightarrow> error + ext2files" where
  "validateMainEntry_part000 ext filename groups =
     (if \<not> is_string filename then Inl onlyStrings
      else
        and_then (test ext re_glob filename) (\<lambda>glob.
        if glob then Inl noGlobs
        else
          and_then (test ext re_minified filename) (\<lambda>minified.
          if minified then Inl noMinified
          else
            and_then (isAsset ext filename) (\<lambda>asset.
            if asset then Inl noAssets
            else
              and_then (extname ext filename) (\<lambda>e.
              Inr (if 2 \<le> length e then push_file e filename groups else groups))))))"

definition validateMain_part000 :: "externals \<Rightarrow> json option \<Rightarrow> error + unit" where
  "validateMain_part000 ext main =
     (case main of
        None \<Rightarrow> Inr ()
      | Some m \<Rightarrow>
          (case (if is_string m then JArr [m] else m) of
             JArr filenames \<Rightarrow>
               and_then (forEach (validateMainEntry_part000 ext) filenames []) (\<lambda>groups.
               case List.find (\<lambda>(e, files). 1 < length files) groups of
                 Some (e, files) \<Rightarrow> Inl (multipleFiles ext e files)
               | None \<Rightarrow> Inr ())
           | _ \<Rightarrow> Inl notArrayOrString))"

subsection \<open>The manifest validator\<close>

definition nameEmpty :: error where
  "nameEmpty = createError ''The name must not be empty'' ''EINVALID''"

definition descriptionTooLong :: error where
  "descriptionTooLong =
     createError ''The description is too long. 140 characters should be more than enough''
       ''EINVALID''"

text \<open>\<^verbatim>\<open>json.description && json.description.length > 140\<close>\<close>

definition longDescription :: "externals \<Rightarrow> json option \<Rightarrow> error + bool" where
  "longDescription ext description =
     (if truthy description then js_gt ext (prop_length description) 140 else Inr False)"

text \<open>
  \<^verbatim>\<open>findErrors(json, options)\<close> of \<^verbatim>\<open>lib/json.js\<close>. Its last two statements are
  \<^verbatim>\<open>
  errors.concat(findDependencyErrors(json.dependencies, options.strictNames));
  errors.concat(findDependencyErrors(json.devDependencies, options.strictNames));
  \<close>
  \<^verbatim>\<open>concat\<close> returns a new array and leaves \<^verbatim>\<open>errors\<close> as it was: the calls are made
  (and may throw) and what they return is dropped.
\<close>

definition findErrors :: "externals \<Rightarrow> json \<Rightarrow> options \<Rightarrow> error + error list" where
  "findErrors ext json options =
     (let enforceNameExists = deepExtend True (opt_enforceNameExists options);
          strictNames = deepExtend True (opt_strictNames options)
      in
        if json = JNull then Inl (nullRead ''name'')
        else
          let name = field json ''name'';
              errors0 =
                (if enforceNameExists \<and> \<not> (truthy name \<and> truthy (prop_length name))
                 then [nameEmpty] else [])
          in
            and_then
              (if truthy name then
                 and_then (findPackageNameErrors name strictNames) (\<lambda>found. Inr (errors0 @ found))
               else Inr errors0) (\<lambda>errors1.
            and_then (longDescription ext (field json ''description'')) (\<lambda>long.
            let errors2 = (if long then errors1 @ [descriptionTooLong] else errors1) in
            and_then (findMainErrors ext (field json ''main'') errors2) (\<lambda>errors3.
            and_then (findDependencyErrors ext (field json ''dependencies'') strictNames) (\<lambda>_.
            and_then (findDependencyErrors ext (field json ''devDependencies'') strictNames) (\<lambda>_.
            Inr errors3))))))"

text \<open>\<^verbatim>\<open>validate(json, options)\<close> of \<^verbatim>\<open>lib/json.js\<close>.\<close>

definition validate :: "externals \<Rightarrow> json \<Rightarrow> options \<Rightarrow> error + json" where
  "validate ext json options =
     and_then (findErrors ext json options) (\<lambda>errors.
     and_then (throwOnError errors) (\<lambda>_. Inr json))"

text \<open>\<^verbatim>\<open>validate(json, options)\<close> of \<^verbatim>\<open>part_000\<close>.\<close>

definition validate_part000 :: "externals \<Rightarrow> json \<Rightarrow> options \<Rightarrow> error + json" where
  "validate_part000 ext json options =
     (let enforceNameExists = deepExtend True (opt_enforceNameExists options);
          strictNames = deepExtend True (opt_strictNames options)
      in
        if json = JNull then Inl (nullRead ''name'')
        else
          let name = field json ''name'' in
            if enforceNameExists \<and> \<not> (truthy name \<and> truthy (prop_length name)) then
              Inl nameEmpty
            else
              and_then
                (if truthy name then validatePackageName_part000 ext name strictNames
                 else Inr ()) (\<lambda>_.
              and_then (longDescription ext (field json ''description'')) (\<lambda>long.
              if long then Inl descriptionTooLong
              else
                and_then (validateMain_part000 ext (field json ''main'')) (\<lambda>_.
                and_then
                  (validateDependencies_part000 ext (field json ''dependencies'') strictNames) (\<lambda>_.
                and_then
                  (validateDependencies_part000 ext (field json ''devDependencies'') strictNames)
                  (\<lambda>_.
                Inr json))))))"

subsection \<open>The normalizer\<close>

text \<open>
  \<^verbatim>\<open>
  function normalize(json) {
      if (typeof json.main === 'string') { json.main = [json.main]; }
      return json;
  }
  \<close>
  \<open>normalize_json\<close> gives the manifest as the call leaves it. Assigning to a property an
  object has keeps the property's place among the keys.
\<close>

fun set_field :: "json \<Rightarrow> string \<Rightarrow> json \<Rightarrow> json" where
  "set_field (JObj kvs) k v = JObj (AList.update k v kvs)"
| "set_field j k v = j"

definition normalize_json :: "json \<Rightarrow> error + json" where
  "normalize_json json =
     (if json = JNull then Inl (nullRead ''main'')
      else
        (case field json ''main'' of
           Some (JStr f) \<Rightarrow> Inr (set_field json ''main'' (JArr [JStr f]))
         | _ \<Rightarrow> Inr json))"

text \<open>
  The same call on a heap of objects: the argument is a reference to an object of the
  heap, the call changes that object where it is and returns the reference it was given.
\<close>

type_synonym heap = "nat \<Rightarrow> json"

definition normalize_at :: "heap \<Rightarrow> nat \<Rightarrow> error + heap \<times> nat" where
  "normalize_at h r = and_then (normalize_json (h r)) (\<lambda>json. Inr (h(r := json), r))"

subsection \<open>Parsing\<close>

text \<open>
  \<^verbatim>\<open>parse(json, originalOptions)\<close>, the same in both files but for the validator it
  calls, which is the parameter \<open>validator\<close> here.
\<close>

definition parse_with ::
  "(externals \<Rightarrow> json \<Rightarrow> options \<Rightarrow> error + json) \<Rightarrow>
   externals \<Rightarrow> json \<Rightarrow> options \<Rightarrow> error + json" where
  "parse_with validator ext json originalOptions =
     (let json1 = (if deepExtend False (opt_clone originalOptions) then clone ext json else json)
      in
        and_then
          (if deepExtend True (opt_validate originalOptions)
           then validator ext json1 originalOptions else Inr json1) (\<lambda>_.
        if deepExtend False (opt_normalize originalOptions) then normalize_json json1
        else Inr json1))"

definition parse :: "externals \<Rightarrow> json \<Rightarrow> options \<Rightarrow> error + json" where
  "parse = parse_with validate"

definition parse_part000 :: "externals \<Rightarrow> json \<Rightarrow> options \<Rightarrow> error + json" where
  "parse_part000 = parse_with validate_part000"

subsection \<open>The manifest locator\<close>

text \<open>
  The directory as the module sees it: \<^verbatim>\<open>fs.stat\<close> (an error, or whether the path is a
  directory), \<^verbatim>\<open>fs.readFile\<close>, \<^verbatim>\<open>fs.exists\<close>, \<^verbatim>\<open>./util/isComponent\<close> (the classifier of
  legacy component files), \<^verbatim>\<open>path.resolve\<close>, \<^verbatim>\<open>path.join\<close> and \<^verbatim>\<open>JSON.parse\<close>. Each
  callback is called once, with what the function returns here.
\<close>

record filesystem =
  fs_stat :: "string \<Rightarrow> error + bool"
  fs_readFile :: "string \<Rightarrow> error + string"
  fs_exists :: "string \<Rightarrow> bool"
  isComponent :: "string \<Rightarrow> bool"
  path_resolve :: "string \<Rightarrow> string"
  path_join :: "string \<Rightarrow> string \<Rightarrow> string"
  JSON_parse :: "string \<Rightarrow> error + json"

definition possibleJsons :: "string list" where
  "possibleJsons = [''bower.json'', ''component.json'', ''.bower.json'']"

text \<open>\<^verbatim>\<open>xs.join(sep)\<close> on strings.\<close>

fun join_strings :: "string \<Rightarrow> string list \<Rightarrow> string" where
  "join_strings sep [] = []"
| "join_strings sep [x] = x"
| "join_strings sep (x # y # ys) = x @ sep @ join_strings sep (y # ys)"

definition noneFound :: "string \<Rightarrow> error" where
  "noneFound folder =
     createError (''None of '' @ join_strings '', '' possibleJsons @ '' were found in '' @ folder)
       ''ENOENT''"

text \<open>
  \<^verbatim>\<open>find(folder, files, callback)\<close>; a call with two arguments is a call with
  \<open>possibleJsons\<close> for \<open>files\<close>.
\<close>

fun find_json :: "filesystem \<Rightarrow> string \<Rightarrow> string list \<Rightarrow> error + string" where
  "find_json fs folder [] = Inl (noneFound folder)"
| "find_json fs folder (f # files) =
     (let file = path_resolve fs (path_join fs folder f) in
        if \<not> fs_exists fs file then find_json fs folder files
        else if f \<noteq> ''component.json'' then Inr file
        else if isComponent fs file then find_json fs folder files
        else Inr file)"

subsection \<open>The manifest reader\<close>

text \<open>What \<^verbatim>\<open>read\<close> does with a path that is not a directory.\<close>

definition readFile_with ::
  "(externals \<Rightarrow> json \<Rightarrow> options \<Rightarrow> error + json) \<Rightarrow>
   filesystem \<Rightarrow> externals \<Rightarrow> string \<Rightarrow> options \<Rightarrow> error + json \<times> string" where
  "readFile_with validator fs ext file options =
     (case fs_readFile fs file of
        Inl err \<Rightarrow> Inl err
      | Inr contents \<Rightarrow>
          (case JSON_parse fs contents of
             Inl err \<Rightarrow>
               Inl (err\<lparr>file_attr := Some (path_resolve fs file), code := Some ''EMALFORMED''\<rparr>)
           | Inr json \<Rightarrow>
               (case parse_with validator ext json options of
                  Inl err \<Rightarrow> Inl (err\<lparr>file_attr := Some (path_resolve fs file)\<rparr>)
                | Inr json' \<Rightarrow> Inr (json', file))))"

text \<open>
  \<^verbatim>\<open>read(file, options, callback)\<close>: the result is what the callback receives, an error or
  the manifest and the path it was read from. On a directory \<^verbatim>\<open>read\<close> calls itself on what
  \<^verbatim>\<open>find\<close> located, and nothing in the module bounds how often; \<open>None\<close> is a call
  that never reaches its callback.
\<close>

partial_function (option) read_with ::
  "(externals \<Rightarrow> json \<Rightarrow> options \<Rightarrow> error + json) \<Rightarrow>
   filesystem \<Rightarrow> externals \<Rightarrow> string \<Rightarrow> options \<Rightarrow> (error + json \<times> string) option" where
  "read_with validator fs ext file options =
     (case fs_stat fs file of
        Inl err \<Rightarrow> Some (Inl err)
      | Inr isDirectory \<Rightarrow>
          if isDirectory then
            (case find_json fs file possibleJsons of
               Inl err \<Rightarrow> Some (Inl err)
             | Inr found \<Rightarrow> read_with validator fs ext found options)
          else Some (readFile_with validator fs ext file options))"

definition read ::
  "filesystem \<Rightarrow> externals \<Rightarrow> string \<Rightarrow> options \<Rightarrow> (error + json \<times> string) option" where
  "read = read_with validate"

definition read_part000 ::
  "filesystem \<Rightarrow> externals \<Rightarrow> string \<Rightarrow> options \<Rightarrow> (error + json \<times> string) option" where
  "read_part000 = read_with validate_part000"

subsection \<open>An instance of the collaborators for the examples\<close>

text \<open>
  Every collaborator that can fail does fail here, so an example that evaluates to the
  result stated has consulted none of them.
\<close>

definition unreached :: error where
  "unreached = typeError ''a collaborator outside the source files was called''"

definition no_externals :: externals where
  "no_externals =
     \<lparr>isAsset = (\<lambda>v. Inl unreached),
      extname = (\<lambda>v. Inl unreached),
      stringify = (\<lambda>v. []),
      clone = (\<lambda>v. v),
      toString = (\<lambda>v. Inl unreached),
      greaterEq = (\<lambda>v k. Inl unreached),
      greater = (\<lambda>v k. Inl unreached)\<rparr>"

text \<open>
  A directory for the examples: \<open>files\<close> maps the paths that exist (all of them files)
  to their contents, \<open>legacy\<close> lists the paths \<^verbatim>\<open>isComponent\<close> classifies as component
  files, \<open>parses\<close> maps the contents \<^verbatim>\<open>JSON.parse\<close> accepts to their values. Paths are
  joined with a slash and are absolute already.
\<close>

definition example_fs ::
  "(string \<times> string) list \<Rightarrow> string list \<Rightarrow> (string \<times> json) list \<Rightarrow> filesystem" where
  "example_fs files legacy parses =
     \<lparr>fs_stat = (\<lambda>p. case map_of files p of
                         Some c \<Rightarrow> Inr False
                       | None \<Rightarrow> Inl (createError ''no such file or directory'' ''ENOENT'')),
      fs_readFile = (\<lambda>p. case map_of files p of
                             Some c \<Rightarrow> Inr c
                           | None \<Rightarrow> Inl (createError ''no such file or directory'' ''ENOENT'')),
      fs_exists = (\<lambda>p. case map_of files p of Some c \<Rightarrow> True | None \<Rightarrow> False),
      isComponent = (\<lambda>p. p \<in> set legacy),
      path_resolve = (\<lambda>p. p),
      path_join = (\<lambda>folder f. folder @ ''/'' @ f),
      JSON_parse = (\<lambda>c. case map_of parses c of
                            Some v \<Rightarrow> Inr v
                          | None \<Rightarrow> Inl (typeError ''Unexpected token''))\<rparr>"

subsection \<open>Predicates the properties are stated with\<close>

text \<open>
  A candidate filename the locator accepts: its path exists and it is not a
  \<^verbatim>\<open>component.json\<close> that the classifier takes for a legacy component file.
\<close>

definition acceptable :: "filesystem \<Rightarrow> string \<Rightarrow> string \<Rightarrow> bool" where
  "acceptable fs folder f =
     (let file = path_resolve fs (path_join fs folder f) in
        fs_exists fs file \<and> \<not> (f = ''component.json'' \<and> isComponent fs file))"

text \<open>
  The strict package-name grammar of the specification (section 4.1). Its structural
  grammar is
  \<^verbatim>\<open>^[A-Za-z]?([A-Za-z](([A-Za-z0-9]-?)*([A-Za-z0-9]\.?)*)*[A-Za-z0-9])?$\<close>
  (it admits only the characters of rule 3, \<^verbatim>\<open>[A-Za-z0-9.-]\<close>); a name is not empty and
  shorter than 50 characters; in strict mode it has no uppercase letter and starts and ends
  with a lowercase letter.
\<close>

definition spec_structure :: regexp where
  "spec_structure =
     RegExp True
       (RSeq (ROpt (RClass [upper, lower]))
          (ROpt (RSeq (RClass [upper, lower])
             (RSeq (RStar (RSeq (RStar (RSeq (RClass [upper, lower, digit])
                                          (ROpt (RClass [Ch CHR ''-'']))))
                                (RStar (RSeq (RClass [upper, lower, digit])
                                          (ROpt (RClass [Ch CHR ''.'']))))))
                   (RClass [upper, lower, digit])))))
       True"

definition spec_strict_name :: "string \<Rightarrow> bool" where
  "spec_strict_name s =
     (s \<noteq> [] \<and> length s < 50 \<and> js_test spec_structure s \<and>
      \<not> list_ex (\<lambda>c. in_cls c upper) s \<and> in_cls (hd s) lower \<and> in_cls (last s) lower)"

text \<open>
  The six characters that lie between \<^verbatim>\<open>Z\<close> and \<^verbatim>\<open>a\<close>:
  \<^verbatim>\<open>[ \ ] ^ _ `\<close>. The range \<^verbatim>\<open>A-z\<close> of the source's classes holds them, the
  classes \<^verbatim>\<open>A-Za-z\<close> of the specification do not.
\<close>

definition between_cases :: cls where
  "between_cases = Rng CHR ''['' CHR ''`''"

text \<open>
  The names of a manifest: its \<^verbatim>\<open>name\<close> when that is a string and not empty, and the
  keys of \<^verbatim>\<open>dependencies\<close> and of \<^verbatim>\<open>devDependencies\<close>.
\<close>

definition names_of :: "json \<Rightarrow> string list" where
  "names_of json =
     (case field json ''name'' of
        Some (JStr s) \<Rightarrow> (if s = [] then [] else [s])
      | _ \<Rightarrow> []) @
     map fst (own_entries (field json ''dependencies'')) @
     map fst (own_entries (field json ''devDependencies''))"


text \<open>A string the name validator of the source lets pass in strict mode.\<close>

definition accepted_name :: "string \<Rightarrow> bool" where
  "accepted_name s = (findPackageNameErrors (Some (JStr s)) True = Inr [])"

text \<open>A dependency's resource that is a string with \<^verbatim>\<open>..\<close> in it.\<close>

fun traverses :: "json \<Rightarrow> bool" where
  "traverses (JStr s) = sublist ''..'' s"
| "traverses v = False"

subsection \<open>What a pattern denotes\<close>

text \<open>
  The language of a pattern body, against which the matcher is proved right: \<open>conc\<close> is
  concatenation, \<open>star\<close> is iteration.
\<close>

inductive_set star :: "string set \<Rightarrow> string set" for A :: "string set" where
  star_nil: "[] \<in> star A"
| star_app: "u \<in> A \<Longrightarrow> v \<in> star A \<Longrightarrow> u @ v \<in> star A"

definition conc :: "string set \<Rightarrow> string set \<Rightarrow> string set" where
  "conc A B = {u @ v | u v. u \<in> A \<and> v \<in> B}"

fun lang :: "rx \<Rightarrow> string set" where
  "lang RNone = {}"
| "lang REps = {[]}"
| "lang (RClass cs) = {[c] | c. list_ex (in_cls c) cs}"
| "lang (RNotClass cs) = {[c] | c. \<not> list_ex (in_cls c) cs}"
| "lang (RSeq r s) = conc (lang r) (lang s)"
| "lang (RAlt r s) = lang r \<union> lang s"
| "lang (RStar r) = star (lang r)"
| "lang (ROpt r) = insert [] (lang r)"

text \<open>
  Two pattern bodies of the same shape whose classes hold the same characters among those
  that satisfy \<open>P\<close>.
\<close>

fun same_on :: "(char \<Rightarrow> bool) \<Rightarrow> rx \<Rightarrow> rx \<Rightarrow> bool" where
  "same_on P RNone RNone = True"
| "same_on P REps REps = True"
| "same_on P (RClass a) (RClass b) =
     (\<forall>c. P c \<longrightarrow> list_ex (in_cls c) a = list_ex (in_cls c) b)"
| "same_on P (RNotClass a) (RNotClass b) =
     (\<forall>c. P c \<longrightarrow> list_ex (in_cls c) a = list_ex (in_cls c) b)"
| "same_on P (RSeq r s) (RSeq r' s') = (same_on P r r' \<and> same_on P s s')"
| "same_on P (RAlt r s) (RAlt r' s') = (same_on P r r' \<and> same_on P s s')"
| "same_on P (RStar r) (RStar r') = same_on P r r'"
| "same_on P (ROpt r) (ROpt r') = same_on P r r'"
| "same_on P r r' = False"

section \<open>Properties\<close>

subsection \<open>The matcher decides membership in the language\<close>

lemma nil_in_conc: "[] \<in> conc A B \<longleftrightarrow> [] \<in> A \<and> [] \<in> B"
  by (auto simp: conc_def)

lemma cons_in_conc:
  "c # w \<in> conc A B \<longleftrightarrow>
     (\<exists>u v. w = u @ v \<and> c # u \<in> A \<and> v \<in> B) \<or> ([] \<in> A \<and> c # w \<in> B)"
proof
  assume "c # w \<in> conc A B"
  then obtain u v where uv: "c # w = u @ v" "u \<in> A" "v \<in> B"
    by (auto simp: conc_def)
  show "(\<exists>u v. w = u @ v \<and> c # u \<in> A \<and> v \<in> B) \<or> ([] \<in> A \<and> c # w \<in> B)"
  proof (cases u)
    case Nil
    with uv show ?thesis by simp
  next
    case (Cons d u')
    with uv have "w = u' @ v" "c # u' \<in> A" by simp_all
    with uv show ?thesis by blast
  qed
next
  assume "(\<exists>u v. w = u @ v \<and> c # u \<in> A \<and> v \<in> B) \<or> ([] \<in> A \<and> c # w \<in> B)"
  then show "c # w \<in> conc A B"
  proof
    assume "\<exists>u v. w = u @ v \<and> c # u \<in> A \<and> v \<in> B"
    then obtain u v where "w = u @ v" "c # u \<in> A" "v \<in> B" by blast
    then have "c # w = (c # u) @ v" by simp
    with \<open>c # u \<in> A\<close> \<open>v \<in> B\<close> show ?thesis unfolding conc_def by blast
  next
    assume "[] \<in> A \<and> c # w \<in> B"
    then have "c # w = [] @ (c # w)" "[] \<in> A" "c # w \<in> B" by simp_all
    then show ?thesis unfolding conc_def by blast
  qed
qed

lemma star_cons_split:
  assumes "x \<in> star A" and "x = c # w"
  shows "\<exists>u v. w = u @ v \<and> c # u \<in> A \<and> v \<in> star A"
  using assms
proof (induction arbitrary: c w rule: star.induct)
  case star_nil
  then show ?case by simp
next
  case (star_app u v)
  show ?case
  proof (cases u)
    case Nil
    with star_app show ?thesis by simp
  next
    case (Cons d u')
    with star_app.prems have "w = u' @ v" "d = c" by simp_all
    with Cons star_app.hyps show ?thesis by blast
  qed
qed

lemma cons_in_star:
  "c # w \<in> star A \<longleftrightarrow> (\<exists>u v. w = u @ v \<and> c # u \<in> A \<and> v \<in> star A)"
proof
  assume "c # w \<in> star A"
  then show "\<exists>u v. w = u @ v \<and> c # u \<in> A \<and> v \<in> star A"
    using star_cons_split by blast
next
  assume "\<exists>u v. w = u @ v \<and> c # u \<in> A \<and> v \<in> star A"
  then obtain u v where "w = u @ v" "c # u \<in> A" "v \<in> star A" by blast
  then show "c # w \<in> star A"
    using star_app [of "c # u" A v] by simp
qed

lemma in_conc: "w \<in> conc A B \<longleftrightarrow> (\<exists>u v. w = u @ v \<and> u \<in> A \<and> v \<in> B)"
  by (auto simp: conc_def)

lemma nullable_lang: "nullable r \<longleftrightarrow> [] \<in> lang r"
  by (induction r) (auto simp: nil_in_conc intro: star_nil)

lemma deriv_lang: "w \<in> lang (deriv c r) \<longleftrightarrow> c # w \<in> lang r"
proof (induction r arbitrary: w)
  case (RSeq r s)
  have "w \<in> conc (lang (deriv c r)) (lang s) \<longleftrightarrow>
          (\<exists>u v. w = u @ v \<and> c # u \<in> lang r \<and> v \<in> lang s)"
    by (simp add: in_conc RSeq.IH)
  then show ?case
    by (simp add: cons_in_conc nullable_lang RSeq.IH)
next
  case (RStar r)
  have "w \<in> conc (lang (deriv c r)) (star (lang r)) \<longleftrightarrow>
          (\<exists>u v. w = u @ v \<and> c # u \<in> lang r \<and> v \<in> star (lang r))"
    by (simp add: in_conc RStar.IH)
  then show ?case
    by (simp add: cons_in_star)
qed auto

lemma matches_lang: "matches r w \<longleftrightarrow> w \<in> lang r"
  by (induction w arbitrary: r) (simp_all add: nullable_lang deriv_lang)

lemma star_any: "w \<in> lang (RStar any_char)"
proof (induction w)
  case Nil
  show ?case by (simp add: star_nil)
next
  case (Cons c w)
  have "[c] \<in> lang any_char" by (simp add: any_char_def)
  with Cons show ?case
    using star_app [of "[c]" "lang any_char" w] by simp
qed

lemma js_test_iff:
  "js_test (RegExp a r e) s \<longleftrightarrow>
     (\<exists>p m q. s = p @ m @ q \<and> m \<in> lang r \<and> (a \<longrightarrow> p = []) \<and> (e \<longrightarrow> q = []))"
  by (cases a; cases e) (auto simp: matches_lang in_conc star_any simp del: lang.simps(7))

subsection \<open>What the tests of the module decide\<close>

lemma lang_class1: "m \<in> lang (RClass [k]) \<longleftrightarrow> (\<exists>c. m = [c] \<and> in_cls c k)"
  by auto

lemma test_unanchored_class:
  "js_test (RegExp False (RClass [k]) False) s \<longleftrightarrow> (\<exists>c\<in>set s. in_cls c k)"
proof
  assume "js_test (RegExp False (RClass [k]) False) s"
  then obtain p m q where "s = p @ m @ q" "m \<in> lang (RClass [k])"
    unfolding js_test_iff by blast
  then show "\<exists>c\<in>set s. in_cls c k" by auto
next
  assume "\<exists>c\<in>set s. in_cls c k"
  then obtain c where c: "c \<in> set s" "in_cls c k" by blast
  then obtain p q where "s = p @ c # q" by (meson split_list)
  then have "s = p @ [c] @ q" by simp
  moreover have "[c] \<in> lang (RClass [k])" using c by simp
  ultimately show "js_test (RegExp False (RClass [k]) False) s"
    unfolding js_test_iff by blast
qed

lemma test_upper: "js_test re_upper s \<longleftrightarrow> (\<exists>c\<in>set s. in_cls c upper)"
  unfolding re_upper_def by (rule test_unanchored_class)

lemma test_lower: "js_test re_lower s \<longleftrightarrow> (\<exists>c\<in>set s. in_cls c lower)"
  unfolding re_lower_def by (rule test_unanchored_class)

lemma test_lower_start: "js_test re_lower_start s \<longleftrightarrow> s \<noteq> [] \<and> in_cls (hd s) lower"
proof
  assume "js_test re_lower_start s"
  then obtain m q where "s = m @ q" "m \<in> lang (RClass [lower])"
    unfolding re_lower_start_def js_test_iff by auto
  then show "s \<noteq> [] \<and> in_cls (hd s) lower" by auto
next
  assume a: "s \<noteq> [] \<and> in_cls (hd s) lower"
  then have "s = [] @ [hd s] @ tl s" "[hd s] \<in> lang (RClass [lower])" by simp_all
  then show "js_test re_lower_start s"
    unfolding re_lower_start_def js_test_iff by blast
qed

lemma test_lower_end: "js_test re_lower_end s \<longleftrightarrow> s \<noteq> [] \<and> in_cls (last s) lower"
proof
  assume "js_test re_lower_end s"
  then obtain p m where "s = p @ m" "m \<in> lang (RClass [lower])"
    unfolding re_lower_end_def js_test_iff by auto
  then show "s \<noteq> [] \<and> in_cls (last s) lower" by auto
next
  assume a: "s \<noteq> [] \<and> in_cls (last s) lower"
  then have "s = butlast s @ [last s] @ []" "[last s] \<in> lang (RClass [lower])" by simp_all
  then show "js_test re_lower_end s"
    unfolding re_lower_end_def js_test_iff by blast
qed

lemma test_invalid: "js_test re_invalid s"
proof -
  have "s = [] @ [] @ s" by simp
  moreover have "[] \<in> lang (RStar (RNotClass [letter, digit, Ch CHR ''.'', Ch CHR ''-'']))"
    by (simp add: star_nil)
  ultimately show ?thesis
    unfolding re_invalid_def js_test_iff by blast
qed

lemma lang_dotdot: "lang (RSeq (RClass [Ch CHR ''.'']) (RClass [Ch CHR ''.''])) = {''..''}"
  by (auto simp: in_conc)

lemma test_traversal: "js_test re_traversal s \<longleftrightarrow> sublist ''..'' s"
  unfolding re_traversal_def js_test_iff lang_dotdot sublist_def by auto

lemma runChecks_strict:
  "runChecks strictChecks s =
     (if \<exists>c\<in>set s. in_cls c upper then
        Inl (createError ''The name contains upper case letters'' ''EINVALID'')
      else if \<not> (s \<noteq> [] \<and> in_cls (hd s) lower) then
        Inl (createError ''The name has to start with a lower case character from a to z''
               ''EINVALID'')
      else if \<not> (s \<noteq> [] \<and> in_cls (last s) lower) then
        Inl (createError ''The name has to end with a lower case character from a to z''
               ''EINVALID'')
      else Inr ())"
proof -
  have "s \<noteq> [] \<and> in_cls (hd s) lower \<Longrightarrow> \<exists>c\<in>set s. in_cls c lower"
    using hd_in_set by blast
  then show ?thesis
    by (auto simp: strictChecks_def test_upper test_lower test_lower_start test_lower_end)
qed

lemma runChecks_butlast: "runChecks (butlast strictChecks) s = runChecks strictChecks s"
  unfolding runChecks_strict
  by (auto simp: strictChecks_def test_upper test_lower test_lower_start test_lower_end)

subsection \<open>The package name validator on strings\<close>

text \<open>
  On a string both validators run the same checks. The test against
  \<^verbatim>\<open>/[^A-z0-9\.\-]*/\<close> succeeds on every string (the empty match is always there), so
  the statement that throws "The name contains an invalid character" never does.
\<close>

lemmas re_defs = re_invalid_def re_structure_def re_upper_def re_lower_start_def re_lower_end_def
  re_lower_def re_traversal_def letter_def digit_def upper_def lower_def any_char_def

lemma findPackageNameErrors_string:
  "findPackageNameErrors_with checks (Some (JStr s)) strictNames =
     (if s = [] then Inl (createError ''No name property set'' ''EINVALID'')
      else if 50 \<le> length s then
        Inl (createError ''The name is too long. 50 characters should be more than enough''
               ''EINVALID'')
      else if \<not> js_test re_structure s then
        Inl (createError (''The name is malformed: '' @ s) ''EINVALID'')
      else if strictNames then and_then (runChecks checks s) (\<lambda>_. Inr [])
      else Inr [])"
  by (simp add: findPackageNameErrors_with_def test_invalid)

lemma validatePackageName_part000_string:
  "validatePackageName_part000_with checks ext (Some (JStr s)) strictNames =
     (if s = [] then Inl (createError ''No name property set'' ''EINVALID'')
      else if 50 \<le> length s then
        Inl (createError ''The name is too long. 50 characters should be more than enough''
               ''EINVALID'')
      else if \<not> js_test re_structure s then
        Inl (createError (''The name is malformed: '' @ s) ''EINVALID'')
      else if strictNames then runChecks checks s
      else Inr ())"
  by (simp add: validatePackageName_part000_with_def test_invalid and_then_def)

lemma invalid_character_never_thrown:
  "findPackageNameErrors name strictNames \<noteq>
     Inl (createError ''The name contains an invalid character'' ''EINVALID'')"
  by (auto simp: findPackageNameErrors_def findPackageNameErrors_with_def test_invalid
      createError_def runChecks_strict and_then_def split: option.splits json.splits if_splits)

text \<open>
  Claim C2 (names with a character outside \<^verbatim>\<open>[A-Za-z0-9.-]\<close> fail with "The name contains
  an invalid character"). The code does not do this. The name \<^verbatim>\<open>a b\<close> is rejected, but by
  the next rule and with its message, "The name is malformed: a b"; the name \<^verbatim>\<open>a_b\<close>,
  whose underscore lies in the range \<^verbatim>\<open>A-z\<close> of the source's classes, passes every check,
  the strict ones included. Both validators agree on this.
\<close>

theorem invalid_character_rule_silent:
  "validatePackageName (Some (JStr ''a b'')) False =
     Inl (createError ''The name is malformed: a b'' ''EINVALID'') \<and>
   validatePackageName (Some (JStr ''a_b'')) True = Inr (JBool True) \<and>
   validatePackageName_part000 no_externals (Some (JStr ''a b'')) False =
     Inl (createError ''The name is malformed: a b'' ''EINVALID'') \<and>
   validatePackageName_part000 no_externals (Some (JStr ''a_b'')) True = Inr ()"
  by (simp add: validatePackageName_def findPackageNameErrors_def findPackageNameErrors_with_def
      validatePackageName_part000_def validatePackageName_part000_with_def and_then_def
      strictChecks_def re_defs)

text \<open>
  Claim C5 as stated fails in what the validator returns: on a name with an uppercase letter
  that passes the non-strict checks, \<^verbatim>\<open>validatePackageName\<close> of \<^verbatim>\<open>lib/json.js\<close> returns
  \<^verbatim>\<open>true\<close> and that of \<^verbatim>\<open>part_000\<close> returns nothing; neither returns the name.
\<close>

theorem validatePackageName_returns_counterexample:
  "in_cls (hd ''Ab'') upper \<and>
   validatePackageName (Some (JStr ''Ab'')) False = Inr (JBool True) \<and>
   validatePackageName (Some (JStr ''Ab'')) False \<noteq> Inr (JStr ''Ab'') \<and>
   validatePackageName_part000 no_externals (Some (JStr ''Ab'')) False = Inr ()"
  by (simp add: validatePackageName_def findPackageNameErrors_def findPackageNameErrors_string
      validatePackageName_part000_def validatePackageName_part000_string and_then_def re_defs)

text \<open>
  Claim C5, amended. For every string \<open>s\<close> that contains an uppercase letter, is shorter
  than 50 characters and passes the structural pattern, the validator in strict mode fails
  with EINVALID and the message "The name contains upper case letters", and in non-strict
  mode it succeeds, returning \<^verbatim>\<open>true\<close> (\<^verbatim>\<open>lib/json.js\<close>) or nothing (\<^verbatim>\<open>part_000\<close>).
\<close>

theorem uppercase_names:
  assumes "\<exists>c\<in>set s. in_cls c upper" and "length s < 50" and "js_test re_structure s"
  shows "validatePackageName (Some (JStr s)) True =
           Inl (createError ''The name contains upper case letters'' ''EINVALID'') \<and>
         validatePackageName (Some (JStr s)) False = Inr (JBool True) \<and>
         validatePackageName_part000 ext (Some (JStr s)) True =
           Inl (createError ''The name contains upper case letters'' ''EINVALID'') \<and>
         validatePackageName_part000 ext (Some (JStr s)) False = Inr ()"
proof -
  from assms(1) have "s \<noteq> []" by auto
  with assms show ?thesis
    by (simp add: validatePackageName_def findPackageNameErrors_def findPackageNameErrors_string
        validatePackageName_part000_def validatePackageName_part000_string and_then_def
        runChecks_strict)
qed

theorem uppercase_names_witness:
  "(\<exists>c\<in>set ''My-Pkg''. in_cls c upper) \<and> length ''My-Pkg'' < 50 \<and>
   js_test re_structure ''My-Pkg'' \<and>
   validatePackageName (Some (JStr ''My-Pkg'')) True =
     Inl (createError ''The name contains upper case letters'' ''EINVALID'') \<and>
   validatePackageName (Some (JStr ''My-Pkg'')) False = Inr (JBool True)"
proof -
  have h: "\<exists>c\<in>set ''My-Pkg''. in_cls c upper" "length ''My-Pkg'' < 50"
    "js_test re_structure ''My-Pkg''"
    by (simp_all add: re_defs)
  from h uppercase_names [OF h, of no_externals] show ?thesis by simp
qed

text \<open>
  Claim C10. When control reaches the fourth statement of the strict block, the second has
  established that the name starts with a lowercase letter, so the name contains one and the
  fourth does not throw; the validator without the fourth statement (\<open>butlast strictChecks\<close>)
  behaves as the validator on every input, in both files.
\<close>

theorem fourth_strict_check_never_fails:
  "(runChecks (butlast strictChecks) s = Inr () \<longrightarrow>
      s \<noteq> [] \<and> in_cls (hd s) lower \<and> (\<exists>c\<in>set s. in_cls c lower) \<and>
      \<not> fst (last strictChecks) s) \<and>
   findPackageNameErrors_with (butlast strictChecks) name strictNames =
     findPackageNameErrors name strictNames \<and>
   validatePackageName_part000_with (butlast strictChecks) ext name strictNames =
     validatePackageName_part000 ext name strictNames"
proof (intro conjI impI)
  assume "runChecks (butlast strictChecks) s = Inr ()"
  then have ok: "runChecks strictChecks s = Inr ()"
    by (simp add: runChecks_butlast)
  then have "s \<noteq> [] \<and> in_cls (hd s) lower"
    unfolding runChecks_strict by (simp split: if_splits)
  then show "s \<noteq> []" "in_cls (hd s) lower" "\<exists>c\<in>set s. in_cls c lower"
    using hd_in_set by blast+
  then show "\<not> fst (last strictChecks) s"
    by (simp add: strictChecks_def test_lower)
next
  show "findPackageNameErrors_with (butlast strictChecks) name strictNames =
          findPackageNameErrors name strictNames"
    unfolding findPackageNameErrors_def findPackageNameErrors_with_def runChecks_butlast ..
next
  show "validatePackageName_part000_with (butlast strictChecks) ext name strictNames =
          validatePackageName_part000 ext name strictNames"
    unfolding validatePackageName_part000_def validatePackageName_part000_with_def
      runChecks_butlast ..
qed

theorem fourth_strict_check_never_fails_witness:
  "runChecks (butlast strictChecks) ''ab'' = Inr () \<and>
   \<not> fst (last strictChecks) ''ab'' \<and>
   findPackageNameErrors_with (butlast strictChecks) (Some (JStr ''ab'')) True = Inr [] \<and>
   findPackageNameErrors (Some (JStr ''ab'')) True = Inr []"
proof -
  have reached: "runChecks (butlast strictChecks) ''ab'' = Inr ()"
    by (simp add: strictChecks_def re_defs)
  have "findPackageNameErrors_with (butlast strictChecks) (Some (JStr ''ab'')) True = Inr []"
    by (simp add: findPackageNameErrors_string strictChecks_def re_defs and_then_def)
  with reached
    fourth_strict_check_never_fails [of "''ab''" "Some (JStr ''ab'')" True no_externals]
  show ?thesis by simp
qed

lemma list_ex_set: "list_ex P xs \<longleftrightarrow> (\<exists>x\<in>set xs. P x)"
  by (simp add: list_ex_iff)

text \<open>
  The messages of the four statements as the source writes them: the third and the fourth
  carry the same text.
\<close>

lemma strict_statement_literals:
  "map snd strictChecks =
     [''The name contains upper case letters'',
      ''The name has to start with a lower case character from a to z'',
      ''The name has to end with a lower case character from a to z'',
      ''The name has to end with a lower case character from a to z'']"
  by (simp add: strictChecks_def)





subsection \<open>Sequencing\<close>

lemma and_then_simps [simp]:
  "and_then (Inl e) f = Inl e"
  "and_then (Inr x) f = f x"
  by (simp_all add: and_then_def)

lemma and_then_Inr_iff: "and_then m f = Inr y \<longleftrightarrow> (\<exists>x. m = Inr x \<and> f x = Inr y)"
  by (cases m) simp_all

subsection \<open>The locator\<close>

lemma find_json_general:
  "find_json fs folder files =
     (case List.find (acceptable fs folder) files of
        Some f \<Rightarrow> Inr (path_resolve fs (path_join fs folder f))
      | None \<Rightarrow> Inl (noneFound folder))"
  by (induction files) (auto simp: acceptable_def Let_def)

lemma noneFound_message:
  "noneFound folder =
     createError (''None of bower.json, component.json, .bower.json were found in '' @ folder)
       ''ENOENT''"
  by (simp add: noneFound_def possibleJsons_def)

text \<open>
  Claim C4 as stated fails in its last part: the message of the ENOENT error is built from
  \<open>possibleJsons\<close>, so with a candidate list of the caller's it names the three default
  filenames and not the filenames that were tried.
\<close>

theorem find_json_custom_list_counterexample:
  "find_json (example_fs [] [] []) ''/pkg'' [''package.json''] =
     Inl (createError ''None of bower.json, component.json, .bower.json were found in /pkg''
            ''ENOENT'') \<and>
   \<not> sublist ''package.json''
        ''None of bower.json, component.json, .bower.json were found in /pkg''"
  by (simp add: example_fs_def noneFound_message sublist_code)

text \<open>
  Claim C4, amended. For every directory and every classifier, \<^verbatim>\<open>find\<close> returns the
  resolved path of the first candidate that exists and is not a \<^verbatim>\<open>component.json\<close>
  classified as a legacy component file (such a file is skipped and the search goes on);
  with the default list the order is \<^verbatim>\<open>bower.json\<close>, \<^verbatim>\<open>component.json\<close>,
  \<^verbatim>\<open>.bower.json\<close>. When no candidate is acceptable, \<^verbatim>\<open>find\<close> fails with ENOENT and a
  message that names the three default filenames, whatever list the caller gave.
\<close>

theorem find_json_first_acceptable:
  "find_json fs folder files =
     (case List.find (acceptable fs folder) files of
        Some f \<Rightarrow> Inr (path_resolve fs (path_join fs folder f))
      | None \<Rightarrow>
          Inl (createError
                 (''None of bower.json, component.json, .bower.json were found in '' @ folder)
                 ''ENOENT'')) \<and>
   find_json fs folder possibleJsons =
     (if acceptable fs folder ''bower.json'' then
        Inr (path_resolve fs (path_join fs folder ''bower.json''))
      else if acceptable fs folder ''component.json'' then
        Inr (path_resolve fs (path_join fs folder ''component.json''))
      else if acceptable fs folder ''.bower.json'' then
        Inr (path_resolve fs (path_join fs folder ''.bower.json''))
      else
        Inl (createError
               (''None of bower.json, component.json, .bower.json were found in '' @ folder)
               ''ENOENT''))"
  by (simp add: find_json_general noneFound_message possibleJsons_def split: option.splits)

theorem find_json_first_acceptable_witness:
  "find_json
     (example_fs [(''/pkg/component.json'', ''{}''), (''/pkg/.bower.json'', ''{}'')]
        [''/pkg/component.json''] [])
     ''/pkg'' possibleJsons = Inr ''/pkg/.bower.json''"
proof -
  let ?fs = "example_fs [(''/pkg/component.json'', ''{}''), (''/pkg/.bower.json'', ''{}'')]
               [''/pkg/component.json''] []"
  have a: "\<not> acceptable ?fs ''/pkg'' ''bower.json''"
    "\<not> acceptable ?fs ''/pkg'' ''component.json''"
    "acceptable ?fs ''/pkg'' ''.bower.json''"
    by (simp_all add: acceptable_def example_fs_def)
  have p: "path_resolve ?fs (path_join ?fs ''/pkg'' ''.bower.json'') = ''/pkg/.bower.json''"
    by (simp add: example_fs_def)
  from find_json_first_acceptable [of ?fs "''/pkg''" possibleJsons]
  have "find_json ?fs ''/pkg'' possibleJsons =
     (if acceptable ?fs ''/pkg'' ''bower.json'' then
        Inr (path_resolve ?fs (path_join ?fs ''/pkg'' ''bower.json''))
      else if acceptable ?fs ''/pkg'' ''component.json'' then
        Inr (path_resolve ?fs (path_join ?fs ''/pkg'' ''component.json''))
      else if acceptable ?fs ''/pkg'' ''.bower.json'' then
        Inr (path_resolve ?fs (path_join ?fs ''/pkg'' ''.bower.json''))
      else
        Inl (createError
               (''None of bower.json, component.json, .bower.json were found in '' @ ''/pkg'')
               ''ENOENT''))"
    by (rule conjunct2)
  then show ?thesis
    by (simp only: a p if_True if_False)
qed

lemma find_json_examples:
  "find_json (example_fs [(''/pkg/component.json'', ''{}'')] [] []) ''/pkg'' possibleJsons =
     Inr ''/pkg/component.json''"
  "find_json (example_fs [(''/pkg/component.json'', ''{}'')] [''/pkg/component.json''] [])
     ''/pkg'' possibleJsons =
     Inl (createError ''None of bower.json, component.json, .bower.json were found in /pkg''
            ''ENOENT'')"
  by (simp_all add: example_fs_def possibleJsons_def noneFound_message)

subsection \<open>The normalizer\<close>

lemma field_set_field:
  "field (set_field (JObj kvs) k v) k' = (if k' = k then Some v else map_of kvs k')"
  by (simp add: update_conv')

lemma field_Some_obj: "field json k = Some v \<Longrightarrow> \<exists>kvs. json = JObj kvs"
  by (cases json) simp_all

lemma normalize_json_string:
  assumes "field json ''main'' = Some (JStr f)"
  shows "normalize_json json = Inr (set_field json ''main'' (JArr [JStr f]))"
  using assms field_Some_obj [OF assms] by (auto simp: normalize_json_def)

lemma normalize_json_idem: "and_then (normalize_json json) normalize_json = normalize_json json"
proof (cases "\<exists>f. field json ''main'' = Some (JStr f)")
  case True
  then obtain f where f: "field json ''main'' = Some (JStr f)" by blast
  then obtain kvs where "json = JObj kvs" using field_Some_obj by blast
  with f show ?thesis
    by (simp add: normalize_json_def update_conv')
next
  case False
  then show ?thesis
    by (auto simp: normalize_json_def split: option.splits json.splits)
qed

text \<open>
  Claim C8. For a manifest whose \<^verbatim>\<open>main\<close> is a string \<open>f\<close>, \<^verbatim>\<open>normalize\<close> changes the
  object it was given so that its \<^verbatim>\<open>main\<close> is \<open>[f]\<close>, leaves its other fields and every
  other object as they were, and returns the reference it was given; and normalizing twice
  is normalizing once, for every manifest.
\<close>

theorem normalize_main_string:
  "(field (h r) ''main'' = Some (JStr f) \<longrightarrow>
      (\<exists>h'. normalize_at h r = Inr (h', r) \<and>
            field (h' r) ''main'' = Some (JArr [JStr f]) \<and>
            (\<forall>k. k \<noteq> ''main'' \<longrightarrow> field (h' r) k = field (h r) k) \<and>
            (\<forall>r'. r' \<noteq> r \<longrightarrow> h' r' = h r'))) \<and>
   and_then (normalize_json json) normalize_json = normalize_json json \<and>
   and_then (normalize_at h r) (\<lambda>(h', r'). normalize_at h' r') = normalize_at h r"
proof (intro conjI impI)
  assume f: "field (h r) ''main'' = Some (JStr f)"
  then obtain kvs where kvs: "h r = JObj kvs" using field_Some_obj by blast
  let ?h = "h(r := set_field (h r) ''main'' (JArr [JStr f]))"
  have "normalize_at h r = Inr (?h, r)"
    by (simp add: normalize_at_def normalize_json_string [OF f])
  moreover have "field (?h r) ''main'' = Some (JArr [JStr f])"
    by (simp add: kvs update_conv')
  moreover have "\<forall>k. k \<noteq> ''main'' \<longrightarrow> field (?h r) k = field (h r) k"
    by (simp add: kvs update_conv')
  moreover have "\<forall>r'. r' \<noteq> r \<longrightarrow> ?h r' = h r'"
    by simp
  ultimately show "\<exists>h'. normalize_at h r = Inr (h', r) \<and>
            field (h' r) ''main'' = Some (JArr [JStr f]) \<and>
            (\<forall>k. k \<noteq> ''main'' \<longrightarrow> field (h' r) k = field (h r) k) \<and>
            (\<forall>r'. r' \<noteq> r \<longrightarrow> h' r' = h r')"
    by blast
next
  show "and_then (normalize_json json) normalize_json = normalize_json json"
    by (rule normalize_json_idem)
next
  show "and_then (normalize_at h r) (\<lambda>(h', r'). normalize_at h' r') = normalize_at h r"
  proof (cases "normalize_json (h r)")
    case (Inl e)
    then show ?thesis by (simp add: normalize_at_def)
  next
    case (Inr j)
    with normalize_json_idem [of "h r"] have "normalize_json j = Inr j" by simp
    with Inr show ?thesis by (simp add: normalize_at_def)
  qed
qed

theorem normalize_main_string_witness:
  "field (((\<lambda>r. JNull)(0 := JObj [(''name'', JStr ''pkg''), (''main'', JStr ''pkg.js'')])) 0)
     ''main'' = Some (JStr ''pkg.js'') \<and>
   (\<exists>h'. normalize_at
           ((\<lambda>r. JNull)(0 := JObj [(''name'', JStr ''pkg''), (''main'', JStr ''pkg.js'')])) 0 =
           Inr (h', 0) \<and>
         h' 0 = JObj [(''name'', JStr ''pkg''), (''main'', JArr [JStr ''pkg.js''])])"
proof -
  let ?h = "(\<lambda>r. JNull)(0 := JObj [(''name'', JStr ''pkg''), (''main'', JStr ''pkg.js'')])"
  have m: "field (?h 0) ''main'' = Some (JStr ''pkg.js'')" by simp
  with normalize_main_string [of ?h 0 "''pkg.js''" JNull]
  obtain h' where "normalize_at ?h 0 = Inr (h', 0)" by blast
  moreover from this have "h' 0 = JObj [(''name'', JStr ''pkg''), (''main'', JArr [JStr ''pkg.js''])]"
    by (auto simp: normalize_at_def normalize_json_def)
  ultimately show ?thesis using m by blast
qed

subsection \<open>The reader\<close>

lemma read_with_file:
  "fs_stat fs path = Inr False \<Longrightarrow>
   read_with validator fs ext path options = Some (readFile_with validator fs ext path options)"
  by (subst read_with.simps) simp

lemma read_with_directory:
  "fs_stat fs path = Inr True \<Longrightarrow> find_json fs path possibleJsons = Inr found \<Longrightarrow>
   read_with validator fs ext path options = read_with validator fs ext found options"
  by (subst read_with.simps) simp

lemma read_with_malformed:
  assumes "fs_stat fs path = Inr False" and "fs_readFile fs path = Inr contents"
    and "JSON_parse fs contents = Inl err"
  shows "read_with validator fs ext path options =
    Some (Inl (err\<lparr>file_attr := Some (path_resolve fs path), code := Some ''EMALFORMED''\<rparr>))"
  using assms by (simp add: read_with_file readFile_with_def)

lemma read_with_invalid:
  assumes "fs_stat fs path = Inr False" and "fs_readFile fs path = Inr contents"
    and "JSON_parse fs contents = Inr json"
    and "deepExtend True (opt_validate options)"
    and "validator ext (if deepExtend False (opt_clone options) then clone ext json else json)
           options = Inl err"
  shows "read_with validator fs ext path options =
    Some (Inl (err\<lparr>file_attr := Some (path_resolve fs path)\<rparr>))"
  using assms by (simp add: read_with_file readFile_with_def parse_with_def Let_def)

lemma read_with_directory_malformed:
  assumes "fs_stat fs folder = Inr True"
    and "find_json fs folder possibleJsons = Inr found"
    and "fs_stat fs found = Inr False" and "fs_readFile fs found = Inr contents"
    and "JSON_parse fs contents = Inl err"
  shows "read_with validator fs ext folder options =
    Some (Inl (err\<lparr>file_attr := Some (path_resolve fs found), code := Some ''EMALFORMED''\<rparr>))"
  using assms by (simp add: read_with_directory read_with_malformed)

lemma read_with_no_manifest:
  assumes "fs_stat fs folder = Inr True"
    and "find_json fs folder possibleJsons = Inl err"
  shows "read_with validator fs ext folder options = Some (Inl err)"
  using assms by (subst read_with.simps) simp

text \<open>
  Claim C7. When the path is a file whose contents \<^verbatim>\<open>JSON.parse\<close> rejects, \<^verbatim>\<open>read\<close>
  fails with the parser's error, its code set to EMALFORMED and its \<^verbatim>\<open>file\<close> to the
  resolved path; when the contents parse and validation (not switched off) fails, \<^verbatim>\<open>read\<close>
  fails with the validator's error, its \<^verbatim>\<open>file\<close> set to the resolved path. Both files.
\<close>

theorem read_errors_carry_file:
  assumes "fs_stat fs path = Inr False" and "fs_readFile fs path = Inr contents"
  shows
    "(JSON_parse fs contents = Inl err \<longrightarrow>
        read fs ext path options =
          Some (Inl (err\<lparr>file_attr := Some (path_resolve fs path),
                         code := Some ''EMALFORMED''\<rparr>)) \<and>
        read_part000 fs ext path options =
          Some (Inl (err\<lparr>file_attr := Some (path_resolve fs path),
                         code := Some ''EMALFORMED''\<rparr>))) \<and>
     (JSON_parse fs contents = Inr json \<and> deepExtend True (opt_validate options) \<longrightarrow>
        (validate ext (if deepExtend False (opt_clone options) then clone ext json else json)
           options = Inl err \<longrightarrow>
         read fs ext path options =
           Some (Inl (err\<lparr>file_attr := Some (path_resolve fs path)\<rparr>))) \<and>
        (validate_part000 ext
           (if deepExtend False (opt_clone options) then clone ext json else json)
           options = Inl err \<longrightarrow>
         read_part000 fs ext path options =
           Some (Inl (err\<lparr>file_attr := Some (path_resolve fs path)\<rparr>))))"
  unfolding read_def read_part000_def
  using read_with_malformed [OF assms] read_with_invalid [OF assms]
  by blast

theorem read_errors_carry_file_witness:
  \<open>read
     (example_fs [(''/pkg/bower.json'', ''{"name": ''), (''/pkg/other.json'', ''{"name": "My-Pkg"}'')]
        [] [(''{"name": "My-Pkg"}'', JObj [(''name'', JStr ''My-Pkg'')])])
     no_externals ''/pkg/bower.json'' no_options =
     Some (Inl \<lparr>message = ''Unexpected token'', code = Some ''EMALFORMED'',
                 file_attr = Some ''/pkg/bower.json''\<rparr>) \<and>
   read
     (example_fs [(''/pkg/bower.json'', ''{"name": ''), (''/pkg/other.json'', ''{"name": "My-Pkg"}'')]
        [] [(''{"name": "My-Pkg"}'', JObj [(''name'', JStr ''My-Pkg'')])])
     no_externals ''/pkg/other.json'' no_options =
     Some (Inl \<lparr>message = ''The name contains upper case letters'', code = Some ''EINVALID'',
                 file_attr = Some ''/pkg/other.json''\<rparr>)\<close>
proof -
  let ?fs = \<open>example_fs
      [(''/pkg/bower.json'', ''{"name": ''), (''/pkg/other.json'', ''{"name": "My-Pkg"}'')]
      [] [(''{"name": "My-Pkg"}'', JObj [(''name'', JStr ''My-Pkg'')])]\<close>
  let ?json = "JObj [(''name'', JStr ''My-Pkg'')]"
  have stat1: "fs_stat ?fs ''/pkg/bower.json'' = Inr False"
    and read1: \<open>fs_readFile ?fs ''/pkg/bower.json'' = Inr ''{"name": ''\<close>
    and parse1: \<open>JSON_parse ?fs ''{"name": '' = Inl (typeError ''Unexpected token'')\<close>
    and stat2: "fs_stat ?fs ''/pkg/other.json'' = Inr False"
    and read2: \<open>fs_readFile ?fs ''/pkg/other.json'' = Inr ''{"name": "My-Pkg"}''\<close>
    and parse2: \<open>JSON_parse ?fs ''{"name": "My-Pkg"}'' = Inr ?json\<close>
    and res: "path_resolve ?fs ''/pkg/bower.json'' = ''/pkg/bower.json''"
      "path_resolve ?fs ''/pkg/other.json'' = ''/pkg/other.json''"
    by (simp_all add: example_fs_def)
  have opts: "deepExtend True (opt_validate no_options)"
    "\<not> deepExtend False (opt_clone no_options)"
    by (simp_all add: no_options_def deepExtend_def)
  have invalid: "validate no_externals ?json no_options =
      Inl (createError ''The name contains upper case letters'' ''EINVALID'')"
    by (simp add: validate_def findErrors_def no_options_def deepExtend_def
        findPackageNameErrors_def findPackageNameErrors_string strictChecks_def re_defs)
  from read_errors_carry_file [OF stat1 read1, of "typeError ''Unexpected token''" no_externals
      no_options ?json] parse1
  have a: "read ?fs no_externals ''/pkg/bower.json'' no_options =
      Some (Inl ((typeError ''Unexpected token'')\<lparr>file_attr := Some ''/pkg/bower.json'',
        code := Some ''EMALFORMED''\<rparr>))"
    by (simp only: res)
  from read_errors_carry_file [OF stat2 read2,
      of "createError ''The name contains upper case letters'' ''EINVALID''" no_externals
      no_options ?json] parse2 opts invalid
  have b: "read ?fs no_externals ''/pkg/other.json'' no_options =
      Some (Inl ((createError ''The name contains upper case letters'' ''EINVALID'')
        \<lparr>file_attr := Some ''/pkg/other.json''\<rparr>))"
    by (simp only: res if_False)
  from a b show ?thesis
    by (simp add: typeError_def createError_def)
qed

subsection \<open>The structural pattern of the source and the grammar of the specification\<close>

lemma star_same_on:
  assumes "w \<in> star A" and "list_all P w"
    and "\<And>u. list_all P u \<Longrightarrow> u \<in> A \<Longrightarrow> u \<in> B"
  shows "w \<in> star B"
  using assms(1,2)
proof (induction rule: star.induct)
  case star_nil
  show ?case by (rule star.star_nil)
next
  case (star_app u v)
  then have "u \<in> B" "v \<in> star B" using assms(3) by simp_all
  then show ?case by (rule star.star_app)
qed

lemma lang_same_on:
  "same_on P r r' \<Longrightarrow> list_all P w \<Longrightarrow> w \<in> lang r \<longleftrightarrow> w \<in> lang r'"
proof (induction P r r' arbitrary: w rule: same_on.induct)
  case (5 P r s r' s')
  then have "same_on P r r'" "same_on P s s'" by simp_all
  with "5.IH" have
    r: "\<And>u. list_all P u \<Longrightarrow> u \<in> lang r \<longleftrightarrow> u \<in> lang r'" and
    s: "\<And>u. list_all P u \<Longrightarrow> u \<in> lang s \<longleftrightarrow> u \<in> lang s'"
    by blast+
  have "\<And>u v. w = u @ v \<Longrightarrow> list_all P u \<and> list_all P v"
    using "5.prems"(2) by auto
  with r s show ?case
    by (simp add: in_conc) blast
next
  case (7 P r r')
  then have "same_on P r r'" by simp
  with "7.IH" have r: "\<And>u. list_all P u \<Longrightarrow> u \<in> lang r \<longleftrightarrow> u \<in> lang r'"
    by blast
  from "7.prems"(2) r show ?case
    using star_same_on [of w "lang r" P "lang r'"] star_same_on [of w "lang r'" P "lang r"]
    by auto
qed (auto simp: list_all_iff)

lemma js_test_anchored: "js_test (RegExp True r True) s \<longleftrightarrow> s \<in> lang r"
  unfolding js_test_iff by simp

lemma letters_outside_between:
  assumes "\<not> in_cls c between_cases"
  shows "in_cls c letter \<longleftrightarrow> in_cls c upper \<or> in_cls c lower"
  using assms by (auto simp: between_cases_def letter_def upper_def lower_def)

lemma structure_is_spec_structure:
  assumes "\<not> list_ex (\<lambda>c. in_cls c between_cases) s"
  shows "js_test re_structure s \<longleftrightarrow> js_test spec_structure s"
proof -
  from assms have "list_all (\<lambda>c. \<not> in_cls c between_cases) s"
    by (simp add: list_all_iff list_ex_iff)
  then show ?thesis
    unfolding re_structure_def spec_structure_def js_test_anchored
    by (rule lang_same_on [rotated]) (simp add: letters_outside_between)
qed

subsection \<open>What a manifest that validates is known to satisfy\<close>

lemmas validate_defs = validate_def findErrors_def validate_part000_def no_options_def
  deepExtend_def findPackageNameErrors_def findPackageNameErrors_string
  validatePackageName_part000_def validatePackageName_part000_string
  longDescription_def findMainErrors_def validateMain_part000_def
  findDependencyErrors_def validateDependencies_def validateDependencies_part000_def
  dependencyErrors_def validateDependency_part000_def test_def
  strictChecks_def nameEmpty_def

lemma runChecks_strict_ok:
  "runChecks strictChecks s = Inr () \<longleftrightarrow>
     \<not> list_ex (\<lambda>c. in_cls c upper) s \<and> s \<noteq> [] \<and> in_cls (hd s) lower \<and> in_cls (last s) lower"
  unfolding runChecks_strict list_ex_set by auto

lemma runChecks_code: "runChecks checks s = Inl e \<Longrightarrow> code e = Some ''EINVALID''"
  by (induction checks s rule: runChecks.induct) (auto simp: createError_def split: if_splits)

lemma findPackageNameErrors_result:
  "findPackageNameErrors name strictNames = Inr [] \<or>
   (\<exists>e. findPackageNameErrors name strictNames = Inl e \<and> code e = Some ''EINVALID'')"
proof (cases "findPackageNameErrors name strictNames")
  case (Inl e)
  then have "code e = Some ''EINVALID''"
    by (auto simp: findPackageNameErrors_def findPackageNameErrors_with_def createError_def
        and_then_Inr_iff and_then_def
        split: if_splits option.splits json.splits sum.splits dest: runChecks_code)
  with Inl show ?thesis by simp
next
  case (Inr found)
  then have "found = []"
    by (auto simp: findPackageNameErrors_def findPackageNameErrors_with_def and_then_Inr_iff
        split: if_splits option.splits json.splits)
  with Inr show ?thesis by simp
qed

lemma validatePackageName_part000_key_result:
  "validatePackageName_part000 ext (Some (JStr k)) strictNames = Inr () \<or>
   (\<exists>e. validatePackageName_part000 ext (Some (JStr k)) strictNames = Inl e \<and>
        code e = Some ''EINVALID'')"
  by (cases "runChecks strictChecks k")
     (auto simp: validatePackageName_part000_def validatePackageName_part000_string
        createError_def dest: runChecks_code)

lemma forEach_Inr_each:
  "forEach f xs st = Inr st' \<Longrightarrow> x \<in> set xs \<Longrightarrow> \<exists>a b. f x a = Inr b"
proof (induction xs arbitrary: st)
  case Nil
  then show ?case by simp
next
  case (Cons y ys)
  from Cons.prems(1) obtain st1 where st1: "f y st = Inr st1" "forEach f ys st1 = Inr st'"
    by (auto simp: and_then_Inr_iff)
  show ?case
  proof (cases "x = y")
    case True
    with st1 show ?thesis by blast
  next
    case False
    with Cons.prems(2) have "x \<in> set ys" by simp
    with Cons.IH st1 show ?thesis by blast
  qed
qed

lemma accepted_name_iff:
  "accepted_name s \<longleftrightarrow>
     s \<noteq> [] \<and> length s < 50 \<and> js_test re_structure s \<and>
     \<not> list_ex (\<lambda>c. in_cls c upper) s \<and> in_cls (hd s) lower \<and> in_cls (last s) lower"
  unfolding accepted_name_def findPackageNameErrors_def findPackageNameErrors_string
    runChecks_strict
  by (auto simp: list_ex_set)

lemma accepted_name_spec:
  assumes "accepted_name s" and "\<not> list_ex (\<lambda>c. in_cls c between_cases) s"
  shows "spec_strict_name s"
  using assms structure_is_spec_structure [OF assms(2)]
  by (simp add: accepted_name_iff spec_strict_name_def)

lemma findPackageNameErrors_ok:
  assumes "findPackageNameErrors name True = Inr found"
  shows "\<exists>s. name = Some (JStr s) \<and> accepted_name s"
proof -
  from assms obtain s where s: "name = Some (JStr s)"
    by (auto simp: findPackageNameErrors_def findPackageNameErrors_with_def
        split: if_splits option.splits json.splits)
  from findPackageNameErrors_result [of name True] assms have "found = []" by auto
  with assms s show ?thesis by (simp add: accepted_name_def)
qed

lemma validatePackageName_part000_key_ok:
  assumes "validatePackageName_part000 ext (Some (JStr k)) True = Inr u"
  shows "accepted_name k"
  using assms
  by (cases "runChecks strictChecks k")
     (auto simp: validatePackageName_part000_def validatePackageName_part000_string
        accepted_name_iff runChecks_strict_ok split: if_splits)

lemma findDependencyErrors_ok:
  assumes "findDependencyErrors ext dependencies True = Inr found"
  shows "list_all accepted_name (map fst (own_entries dependencies))"
proof (cases "instanceof_Object dependencies")
  case False
  then have "own_entries dependencies = []"
    by (cases dependencies rule: own_entries.cases) simp_all
  then show ?thesis by simp
next
  case True
  with assms have run:
    "forEach (dependencyErrors ext True) (own_entries dependencies) [] = Inr found"
    by (simp add: findDependencyErrors_def)
  have "accepted_name k" if "(k, v) \<in> set (own_entries dependencies)" for k v
  proof -
    from forEach_Inr_each [OF run that]
    obtain a b where "dependencyErrors ext True (k, v) a = Inr b" by blast
    then obtain es where "findPackageNameErrors (Some (JStr k)) True = Inr es"
      by (auto simp: dependencyErrors_def and_then_Inr_iff)
    from findPackageNameErrors_ok [OF this] show ?thesis by simp
  qed
  then show ?thesis by (auto simp: list_all_iff)
qed

lemma validateDependencies_part000_ok:
  assumes "validateDependencies_part000 ext dependencies True = Inr u"
  shows "list_all accepted_name (map fst (own_entries dependencies))"
proof (cases "instanceof_Object dependencies")
  case False
  then have "own_entries dependencies = []"
    by (cases dependencies rule: own_entries.cases) simp_all
  then show ?thesis by simp
next
  case True
  with assms have run:
    "forEach (validateDependency_part000 ext True) (own_entries dependencies) () = Inr u"
    by (simp add: validateDependencies_part000_def)
  have "accepted_name k" if "(k, v) \<in> set (own_entries dependencies)" for k v
  proof -
    from forEach_Inr_each [OF run that]
    obtain a b where "validateDependency_part000 ext True (k, v) a = Inr b" by blast
    then obtain w where "validatePackageName_part000 ext (Some (JStr k)) True = Inr w"
      by (auto simp: validateDependency_part000_def and_then_Inr_iff)
    from validatePackageName_part000_key_ok [OF this] show ?thesis .
  qed
  then show ?thesis by (auto simp: list_all_iff)
qed

lemma validate_names_accepted:
  assumes "deepExtend True (opt_strictNames options)"
    and "validate ext json options = Inr r"
  shows "list_all accepted_name (names_of json)"
    and "truthy (field json ''name'') \<Longrightarrow> \<exists>s. field json ''name'' = Some (JStr s)"
proof -
  from assms(2) obtain errors where fe: "findErrors ext json options = Inr errors"
    by (auto simp: validate_def and_then_Inr_iff)
  from fe assms(1) obtain f1 f2 where
    name: "truthy (field json ''name'') \<longrightarrow>
             (\<exists>found. findPackageNameErrors (field json ''name'') True = Inr found)" and
    deps: "findDependencyErrors ext (field json ''dependencies'') True = Inr f1" and
    dev: "findDependencyErrors ext (field json ''devDependencies'') True = Inr f2"
    by (auto simp: findErrors_def Let_def and_then_Inr_iff split: if_splits)
  from name show "\<exists>s. field json ''name'' = Some (JStr s)" if "truthy (field json ''name'')"
    using that findPackageNameErrors_ok by blast
  have "accepted_name s" if "field json ''name'' = Some (JStr s)" "s \<noteq> []" for s
    using that name findPackageNameErrors_ok [of "Some (JStr s)"] by auto
  with findDependencyErrors_ok [OF deps] findDependencyErrors_ok [OF dev]
  show "list_all accepted_name (names_of json)"
    by (auto simp: names_of_def split: option.splits json.splits)
qed

lemma validate_part000_names_accepted:
  assumes "deepExtend True (opt_strictNames options)"
    and "validate_part000 ext json options = Inr r"
  shows "list_all accepted_name (names_of json)"
proof -
  from assms obtain u1 u2 where
    name: "truthy (field json ''name'') \<longrightarrow>
             (\<exists>u. validatePackageName_part000 ext (field json ''name'') True = Inr u)" and
    deps: "validateDependencies_part000 ext (field json ''dependencies'') True = Inr u1" and
    dev: "validateDependencies_part000 ext (field json ''devDependencies'') True = Inr u2"
    by (auto simp: validate_part000_def Let_def and_then_Inr_iff split: if_splits)
  have "accepted_name s" if "field json ''name'' = Some (JStr s)" "s \<noteq> []" for s
    using that name validatePackageName_part000_key_ok [of ext s] by auto
  with validateDependencies_part000_ok [OF deps] validateDependencies_part000_ok [OF dev]
  show ?thesis
    by (auto simp: names_of_def split: option.splits json.splits)
qed

text \<open>
  Claim C6 as stated fails: with \<^verbatim>\<open>enforceNameExists\<close> switched off, a manifest whose name
  is the empty string passes the validator in strict mode (the name is checked only
  \<^verbatim>\<open>if(json.name)\<close>), and the empty string does not match the strict grammar.
\<close>

theorem empty_name_counterexample:
  "validate no_externals (JObj [(''name'', JStr '''')])
     (no_options\<lparr>opt_enforceNameExists := Some False\<rparr>) = Inr (JObj [(''name'', JStr '''')]) \<and>
   validate_part000 no_externals (JObj [(''name'', JStr '''')])
     (no_options\<lparr>opt_enforceNameExists := Some False\<rparr>) = Inr (JObj [(''name'', JStr '''')]) \<and>
   deepExtend True (opt_strictNames (no_options\<lparr>opt_enforceNameExists := Some False\<rparr>)) \<and>
   field (JObj [(''name'', JStr '''')]) ''name'' = Some (JStr '''') \<and>
   \<not> spec_strict_name ''''"
  by (simp add: validate_defs spec_strict_name_def)

text \<open>
  Claim C6, amended. For every manifest that \<^verbatim>\<open>validate\<close> accepts in strict mode, in either
  file, the name, when it is a string that is not empty, and every key of
  \<^verbatim>\<open>dependencies\<close> and of \<^verbatim>\<open>devDependencies\<close> is shorter than 50 characters, has no
  uppercase letter, starts and ends with a lowercase letter and, unless it contains one of
  the characters \<^verbatim>\<open>[ \ ] ^ _ `\<close>, matches the strict package-name grammar of section 4.1
  of the specification. In \<^verbatim>\<open>lib/json.js\<close> a name that is not empty (truthy) is a string.
  (Nothing is said of a name with one of the six characters beyond the four properties
  named, nor of a name that is not a string in \<^verbatim>\<open>part_000\<close>.)
\<close>

theorem validated_names_are_strict:
  assumes "deepExtend True (opt_strictNames options)"
    and "validate ext json options = Inr r \<or> validate_part000 ext json options = Inr r"
  shows
    "list_all
       (\<lambda>s. s \<noteq> [] \<and> length s < 50 \<and> \<not> list_ex (\<lambda>c. in_cls c upper) s \<and>
            in_cls (hd s) lower \<and> in_cls (last s) lower \<and>
            (list_ex (\<lambda>c. in_cls c between_cases) s \<or> spec_strict_name s))
       (names_of json) \<and>
     (validate ext json options = Inr r \<and> truthy (field json ''name'') \<longrightarrow>
        (\<exists>s. field json ''name'' = Some (JStr s)))"
proof
  from assms have "list_all accepted_name (names_of json)"
    using validate_names_accepted(1) validate_part000_names_accepted by blast
  then show "list_all
       (\<lambda>s. s \<noteq> [] \<and> length s < 50 \<and> \<not> list_ex (\<lambda>c. in_cls c upper) s \<and>
            in_cls (hd s) lower \<and> in_cls (last s) lower \<and>
            (list_ex (\<lambda>c. in_cls c between_cases) s \<or> spec_strict_name s))
       (names_of json)"
    unfolding list_all_iff using accepted_name_spec by (auto simp: accepted_name_iff)
  show "validate ext json options = Inr r \<and> truthy (field json ''name'') \<longrightarrow>
        (\<exists>s. field json ''name'' = Some (JStr s))"
    using validate_names_accepted(2) [OF assms(1)] by blast
qed

theorem validated_names_are_strict_witness:
  "deepExtend True (opt_strictNames no_options) \<and>
   validate no_externals
     (JObj [(''name'', JStr ''pkg''),
            (''dependencies'', JObj [(''jquery'', JStr ''~2.1.0'')]),
            (''devDependencies'', JObj [(''mocha'', JStr ''*'')])])
     no_options =
     Inr (JObj [(''name'', JStr ''pkg''),
            (''dependencies'', JObj [(''jquery'', JStr ''~2.1.0'')]),
            (''devDependencies'', JObj [(''mocha'', JStr ''*'')])]) \<and>
   validate_part000 no_externals
     (JObj [(''name'', JStr ''pkg''),
            (''dependencies'', JObj [(''jquery'', JStr ''~2.1.0'')]),
            (''devDependencies'', JObj [(''mocha'', JStr ''*'')])])
     no_options =
     Inr (JObj [(''name'', JStr ''pkg''),
            (''dependencies'', JObj [(''jquery'', JStr ''~2.1.0'')]),
            (''devDependencies'', JObj [(''mocha'', JStr ''*'')])]) \<and>
   names_of
     (JObj [(''name'', JStr ''pkg''),
            (''dependencies'', JObj [(''jquery'', JStr ''~2.1.0'')]),
            (''devDependencies'', JObj [(''mocha'', JStr ''*'')])]) =
     [''pkg'', ''jquery'', ''mocha''] \<and>
   spec_strict_name ''pkg'' \<and> spec_strict_name ''jquery'' \<and> spec_strict_name ''mocha''"
proof -
  let ?m = "JObj [(''name'', JStr ''pkg''),
            (''dependencies'', JObj [(''jquery'', JStr ''~2.1.0'')]),
            (''devDependencies'', JObj [(''mocha'', JStr ''*'')])]"
  have strict: "deepExtend True (opt_strictNames no_options)"
    by (simp add: no_options_def deepExtend_def)
  have ok: "validate no_externals ?m no_options = Inr ?m"
    by (simp add: validate_defs re_defs)
  have ok0: "validate_part000 no_externals ?m no_options = Inr ?m"
    by (simp add: validate_defs re_defs)
  have names: "names_of ?m = [''pkg'', ''jquery'', ''mocha'']"
    by (simp add: names_of_def)
  have plain: "\<not> list_ex (\<lambda>c. in_cls c between_cases) ''pkg''"
    "\<not> list_ex (\<lambda>c. in_cls c between_cases) ''jquery''"
    "\<not> list_ex (\<lambda>c. in_cls c between_cases) ''mocha''"
    by (simp_all add: between_cases_def)
  from validated_names_are_strict [OF strict disjI1 [OF ok]] plain
  have "spec_strict_name ''pkg''"
    by (simp add: names)
  moreover from validated_names_are_strict [OF strict disjI2 [OF ok0]] plain
  have "spec_strict_name ''jquery'' \<and> spec_strict_name ''mocha''"
    by (simp add: names)
  ultimately show ?thesis using strict ok ok0 names by blast
qed

text \<open>
  What the amended claim C6 leaves out. A name with an underscore, which the range
  \<^verbatim>\<open>A-z\<close> of the source's classes admits, validates in strict mode in both files and is
  outside the grammar of the specification; and \<^verbatim>\<open>part_000\<close>, which does not ask whether
  the name is a string, accepts the array \<^verbatim>\<open>["ab"]\<close> for a name when the engine converts
  it to \<^verbatim>\<open>ab\<close>.
\<close>

lemma names_outside_the_grammar_accepted:
  "validate no_externals (JObj [(''name'', JStr ''a_b'')]) no_options =
     Inr (JObj [(''name'', JStr ''a_b'')]) \<and>
   validate_part000 no_externals (JObj [(''name'', JStr ''a_b'')]) no_options =
     Inr (JObj [(''name'', JStr ''a_b'')]) \<and>
   list_ex (\<lambda>c. in_cls c between_cases) ''a_b'' \<and> \<not> spec_strict_name ''a_b'' \<and>
   validate_part000 (no_externals\<lparr>toString := (\<lambda>v. Inr ''ab'')\<rparr>)
     (JObj [(''name'', JArr [JStr ''ab''])]) no_options =
     Inr (JObj [(''name'', JArr [JStr ''ab''])])"
  by (simp add: validate_defs re_defs between_cases_def spec_strict_name_def spec_structure_def
      validatePackageName_part000_with_def no_externals_def)

subsection \<open>Directory traversal in dependencies\<close>

lemma code_traversing: "code traversing = Some ''EINVALID''"
  by (simp add: traversing_def createError_def)

lemma test_traversal_entry:
  "is_string v \<Longrightarrow> test ext re_traversal v = Inr (traverses v)"
  by (cases v) (simp_all add: test_def test_traversal)

lemma forEach_dependencyErrors:
  assumes "list_all (\<lambda>(k, v). is_string v) kvs"
  shows "(\<exists>e. forEach (dependencyErrors ext strictNames) kvs errors = Inl e \<and>
              code e = Some ''EINVALID'') \<or>
         forEach (dependencyErrors ext strictNames) kvs errors =
           Inr (errors @ map (\<lambda>entry. traversing) (filter (\<lambda>(k, v). traverses v) kvs))"
  using assms
proof (induction kvs arbitrary: errors)
  case Nil
  then show ?case by simp
next
  case (Cons entry kvs)
  obtain k v where entry: "entry = (k, v)" by (cases entry)
  with Cons.prems have v: "is_string v" and rest: "list_all (\<lambda>(k, v). is_string v) kvs"
    by simp_all
  from findPackageNameErrors_result [of "Some (JStr k)" strictNames]
  show ?case
  proof
    assume "\<exists>e. findPackageNameErrors (Some (JStr k)) strictNames = Inl e \<and>
                code e = Some ''EINVALID''"
    then show ?thesis
      by (auto simp: entry dependencyErrors_def)
  next
    assume ok: "findPackageNameErrors (Some (JStr k)) strictNames = Inr []"
    let ?errors = "errors @ (if traverses v then [traversing] else [])"
    have step: "dependencyErrors ext strictNames entry errors = Inr ?errors"
      by (simp add: entry dependencyErrors_def ok test_traversal_entry [OF v])
    from Cons.IH [OF rest, of ?errors] step show ?thesis
      by (auto simp: entry)
  qed
qed

lemma validateDependencies_traversal:
  assumes "list_all (\<lambda>(k, v). is_string v) kvs" and "list_ex (\<lambda>(k, v). traverses v) kvs"
  shows "\<exists>e. validateDependencies ext (Some (JObj kvs)) strictNames = Inl e \<and>
             code e = Some ''EINVALID''"
proof -
  from assms(2) obtain entry rest where
    f: "filter (\<lambda>(k, v). traverses v) kvs = entry # rest"
    by (cases "filter (\<lambda>(k, v). traverses v) kvs") (auto simp: list_ex_iff filter_empty_conv)
  from forEach_dependencyErrors [OF assms(1), of ext strictNames "[]"]
  show ?thesis
    by (auto simp: validateDependencies_def findDependencyErrors_def f code_traversing)
qed

lemma forEach_validateDependency_part000:
  assumes "list_all (\<lambda>(k, v). is_string v) kvs" and "list_ex (\<lambda>(k, v). traverses v) kvs"
  shows "\<exists>e. forEach (validateDependency_part000 ext strictNames) kvs () = Inl e \<and>
             code e = Some ''EINVALID''"
  using assms
proof (induction kvs)
  case Nil
  then show ?case by simp
next
  case (Cons entry kvs)
  obtain k v where entry: "entry = (k, v)" by (cases entry)
  with Cons.prems have v: "is_string v" and rest: "list_all (\<lambda>(k, v). is_string v) kvs"
    by simp_all
  from validatePackageName_part000_key_result [of ext k strictNames]
  show ?case
  proof
    assume "\<exists>e. validatePackageName_part000 ext (Some (JStr k)) strictNames = Inl e \<and>
                code e = Some ''EINVALID''"
    then show ?thesis
      by (auto simp: entry validateDependency_part000_def)
  next
    assume ok: "validatePackageName_part000 ext (Some (JStr k)) strictNames = Inr ()"
    show ?thesis
    proof (cases "traverses v")
      case True
      then show ?thesis
        by (simp add: entry validateDependency_part000_def ok test_traversal_entry [OF v]
            code_traversing)
    next
      case False
      with Cons.prems(2) entry have "list_ex (\<lambda>(k, v). traverses v) kvs" by simp
      from Cons.IH [OF rest this] False show ?thesis
        by (simp add: entry validateDependency_part000_def ok test_traversal_entry [OF v])
    qed
  qed
qed

lemma validateDependencies_part000_traversal:
  assumes "list_all (\<lambda>(k, v). is_string v) kvs" and "list_ex (\<lambda>(k, v). traverses v) kvs"
  shows "\<exists>e. validateDependencies_part000 ext (Some (JObj kvs)) strictNames = Inl e \<and>
             code e = Some ''EINVALID''"
  using forEach_validateDependency_part000 [OF assms]
  by (simp add: validateDependencies_part000_def)

lemma validate_part000_traversal:
  assumes "field json ''dependencies'' = Some (JObj kvs) \<or>
           field json ''devDependencies'' = Some (JObj kvs)"
    and "list_all (\<lambda>(k, v). is_string v) kvs" and "list_ex (\<lambda>(k, v). traverses v) kvs"
  shows "\<exists>e. validate_part000 ext json options = Inl e"
proof (cases "validate_part000 ext json options")
  case (Inl e)
  then show ?thesis by simp
next
  case (Inr r)
  then obtain u1 u2 where
    "validateDependencies_part000 ext (field json ''dependencies'')
       (deepExtend True (opt_strictNames options)) = Inr u1"
    "validateDependencies_part000 ext (field json ''devDependencies'')
       (deepExtend True (opt_strictNames options)) = Inr u2"
    by (auto simp: validate_part000_def Let_def and_then_Inr_iff split: if_splits)
  with assms(1)
    validateDependencies_part000_traversal
      [OF assms(2,3), of ext "deepExtend True (opt_strictNames options)"]
  show ?thesis by auto
qed

text \<open>
  Claim C3 (a dependency mapping with a resource that contains \<^verbatim>\<open>..\<close> is rejected with
  EINVALID by the dependency validator, and so by \<^verbatim>\<open>validate\<close>). The dependency validator
  rejects it in both files and both modes (\<open>validateDependencies_traversal\<close>,
  \<open>validateDependencies_part000_traversal\<close>), and \<^verbatim>\<open>validate\<close> of \<^verbatim>\<open>part_000\<close> never
  accepts a manifest with one (\<open>validate_part000_traversal\<close>). \<^verbatim>\<open>validate\<close> of
  \<^verbatim>\<open>lib/json.js\<close> accepts it: \<^verbatim>\<open>findErrors\<close> calls \<^verbatim>\<open>findDependencyErrors\<close> and drops
  what it returns.
\<close>

theorem validate_accepts_traversal:
  "validate no_externals
     (JObj [(''name'', JStr ''pkg''), (''dependencies'', JObj [(''jquery'', JStr ''../jquery'')])])
     no_options =
     Inr (JObj [(''name'', JStr ''pkg''),
                (''dependencies'', JObj [(''jquery'', JStr ''../jquery'')])]) \<and>
   validate_part000 no_externals
     (JObj [(''name'', JStr ''pkg''), (''dependencies'', JObj [(''jquery'', JStr ''../jquery'')])])
     no_options = Inl traversing \<and>
   validateDependencies no_externals (Some (JObj [(''jquery'', JStr ''../jquery'')])) True =
     Inl traversing"
  by (simp add: validate_defs re_defs)

subsection \<open>Throw mode and collect mode\<close>

lemma validate_findErrors:
  "validate ext json options =
     (case findErrors ext json options of
        Inl e \<Rightarrow> Inl e
      | Inr [] \<Rightarrow> Inr json
      | Inr (e # errors) \<Rightarrow> Inl e)"
  by (auto simp: validate_def split: sum.splits list.splits)

text \<open>
  Claim C1 (\<^verbatim>\<open>validate\<close> throws exactly when \<^verbatim>\<open>findErrors\<close> returns a sequence that is not
  empty, and throws its first element). \<^verbatim>\<open>validate\<close> of \<^verbatim>\<open>lib/json.js\<close> throws the first
  error \<^verbatim>\<open>findErrors\<close> returns (\<open>validate_findErrors\<close>), but \<^verbatim>\<open>findErrors\<close> does not
  collect the rules: on a name with an uppercase letter it throws and returns no sequence,
  and on a dependency with \<^verbatim>\<open>..\<close>, which the throw-mode \<^verbatim>\<open>validate\<close> of \<^verbatim>\<open>part_000\<close>
  rejects, it returns the empty sequence.
\<close>

theorem findErrors_throws_or_drops:
  "findErrors no_externals (JObj [(''name'', JStr ''My-Pkg'')]) no_options =
     Inl (createError ''The name contains upper case letters'' ''EINVALID'') \<and>
   validate no_externals (JObj [(''name'', JStr ''My-Pkg'')]) no_options =
     Inl (createError ''The name contains upper case letters'' ''EINVALID'') \<and>
   findErrors no_externals
     (JObj [(''name'', JStr ''pkg''), (''dependencies'', JObj [(''jquery'', JStr ''../jquery'')])])
     no_options = Inr [] \<and>
   validate_part000 no_externals
     (JObj [(''name'', JStr ''pkg''), (''dependencies'', JObj [(''jquery'', JStr ''../jquery'')])])
     no_options = Inl traversing"
  by (simp add: validate_defs re_defs)

end
